theory Spec2Isabelle
  imports Complex_Main "HOL-Library.Signed_Division"
begin

section \<open>The coordinate frame of cpptraj (src/Frame.cpp)\<close>

text \<open>
  A shallow embedding of class \<open>Frame\<close>. Conventions:
  \<^item> A \<open>double\<close> (and a \<open>float\<close>) is a real number: rounding, infinities and NaN are
    idealised away. Where IEEE arithmetic would produce a NaN or an infinity from finite
    operands (a division by zero, the square root of a negative number) the model stops
    with \<open>NotANumber\<close> or records the value as absent (\<open>None\<close>); it never uses HOL's
    \<open>x / 0 = 0\<close>.
  \<^item> An \<open>int\<close> is a mathematical integer and \<open>/\<close> on it is \<open>sdiv\<close> (truncation
    towards zero). The offsets \<open>natom * 3\<close> are assumed to fit
    (frames of more than \<open>INT_MAX / 3\<close> atoms are outside the model); the product
    \<open>natom * natom\<close> of \<open>DISTRMSD\<close> is checked against \<open>INT_MAX\<close>.
  \<^item> A pointer to a \<open>new double[n]\<close> array is a \<open>buffer\<close>: \<open>Null\<close> or \<open>Buf cells\<close>. The
    cells of a fresh array are indeterminate (\<open>undefined\<close>). An array in which a
    translation by an absent vector has left cells that are not numbers is \<open>NaNBuf cells\<close>,
    such a cell being \<open>None\<close>; it can be read and written cell by cell, and the model stops
    with \<open>NotANumber\<close> at a read of such a cell and at any other use of such an array.
  \<^item> Every access outside a live buffer, and every read past the end of a
    \<open>std::vector\<close>, is undefined behaviour in C++ and the error \<open>MemoryFault\<close> here.
  \<^item> A \<open>this\<close> object is passed in and returned updated. A \<open>const&\<close> argument is a
    different object from \<open>this\<close> and is not returned.
  \<^item> \<open>mprinterr\<close> followed by \<open>return\<close> is an \<open>Inl\<close> of the reported error; the caller's
    frame is then the one it passed in.
\<close>

datatype error =
    MemoryFault
  | IntOverflow
  | NotANumber
  | DivideByZero
  | DifferentNatom
  | MaskTooLarge
  | FrameTooLarge
  | MapSizeMismatch
  | ArrayTooLarge

datatype 'a buffer = Null | Buf "'a list" | NaNBuf "'a option list"

text \<open>The members of \<open>Frame\<close>: \<open>natom_\<close>, \<open>maxnatom_\<close>, \<open>ncoord_\<close>, \<open>T_\<close>, \<open>X_\<close>, \<open>V_\<close>,
  \<open>Mass_\<close> and \<open>box_\<close> (six doubles).\<close>

record Frame =
  natom :: int
  maxnatom :: int
  ncoord :: int
  T :: real
  X :: "real buffer"
  V :: "real buffer"
  Mass :: "real list"
  box :: "real list"

text \<open>Modelled from the spec: class \<open>AtomMask\<close>, whose header is not among the sources.
  "Mask: an ordered set of selected atom indices; exposes size and forward iteration." An
  \<open>AtomMask\<close> is the sequence of indices that its iterator yields; \<open>Nselected()\<close> is its
  length.\<close>

type_synonym AtomMask = "int list"

definition Nselected :: "AtomMask \<Rightarrow> int" where
  "Nselected maskIn = int (length maskIn)"

subsection \<open>Sequencing and memory access\<close>

definition and_then :: "error + 'a \<Rightarrow> ('a \<Rightarrow> error + 'b) \<Rightarrow> error + 'b" where
  "and_then m k = (case m of Inl e \<Rightarrow> Inl e | Inr x \<Rightarrow> k x)"

text \<open>\<open>p[i]\<close> as an rvalue.\<close>

definition rd :: "'a buffer \<Rightarrow> int \<Rightarrow> error + 'a" where
  "rd p i = (case p of
      Buf cells \<Rightarrow> if 0 \<le> i \<and> i < int (length cells) then Inr (cells ! nat i) else Inl MemoryFault
    | NaNBuf cells \<Rightarrow>
        if 0 \<le> i \<and> i < int (length cells)
        then (case cells ! nat i of Some v \<Rightarrow> Inr v | None \<Rightarrow> Inl NotANumber)
        else Inl MemoryFault
    | Null \<Rightarrow> Inl MemoryFault)"

text \<open>\<open>p[i] = v\<close>.\<close>

definition wr :: "'a buffer \<Rightarrow> int \<Rightarrow> 'a \<Rightarrow> error + 'a buffer" where
  "wr p i v = (case p of
      Buf cells \<Rightarrow> if 0 \<le> i \<and> i < int (length cells) then Inr (Buf (cells[nat i := v])) else Inl MemoryFault
    | NaNBuf cells \<Rightarrow>
        if 0 \<le> i \<and> i < int (length cells) then Inr (NaNBuf (cells[nat i := Some v]))
        else Inl MemoryFault
    | Null \<Rightarrow> Inl MemoryFault)"

text \<open>\<open>v[i]\<close> on a \<open>std::vector\<close> (unchecked \<open>operator[]\<close>, or an iterator dereference).\<close>

definition vec_at :: "'a list \<Rightarrow> int \<Rightarrow> error + 'a" where
  "vec_at v i = (if 0 \<le> i \<and> i < int (length v) then Inr (v ! nat i) else Inl MemoryFault)"

text \<open>\<open>memcpy(dst + d, src + s, n * sizeof(double))\<close> between two different arrays.\<close>

definition memcpy :: "'a buffer \<Rightarrow> int \<Rightarrow> 'a buffer \<Rightarrow> int \<Rightarrow> nat \<Rightarrow> error + 'a buffer" where
  "memcpy dst d src s n = (case (dst, src) of
      (Buf xs, Buf ys) \<Rightarrow>
        if 0 \<le> d \<and> d + int n \<le> int (length xs) \<and> 0 \<le> s \<and> s + int n \<le> int (length ys)
        then Inr (Buf (take (nat d) xs @ take n (drop (nat s) ys) @ drop (nat d + n) xs))
        else Inl MemoryFault
    | (Null, _) \<Rightarrow> Inl MemoryFault
    | (_, Null) \<Rightarrow> Inl MemoryFault
    | _ \<Rightarrow> Inl NotANumber)"

text \<open>\<open>new double[n]\<close>.\<close>

definition new_double :: "int \<Rightarrow> real buffer" where
  "new_double n = Buf (replicate (nat n) undefined)"

text \<open>The cells behind a pointer (none unless it is live), and an update of them in place.\<close>

definition cells :: "'a buffer \<Rightarrow> 'a list" where
  "cells p = (case p of Buf cs \<Rightarrow> cs | _ \<Rightarrow> [])"

definition map_cells :: "('a list \<Rightarrow> 'a list) \<Rightarrow> 'a buffer \<Rightarrow> 'a buffer" where
  "map_cells f p = (case p of Buf cs \<Rightarrow> Buf (f cs) | _ \<Rightarrow> p)"

subsection \<open>Frame::Frame(Frame const&, AtomMask const&)\<close>

text \<open>The three copy loops of the constructor. \<open>off\<close> is \<open>newX - X_\<close> (and \<open>newV - V_\<close>:
  the two pointers advance together); \<open>mass\<close> is \<open>Mass_\<close>, grown by \<open>push_back\<close>.\<close>

fun copy_crd_mass_velo ::
  "Frame \<Rightarrow> AtomMask \<Rightarrow> int \<Rightarrow> real buffer \<Rightarrow> real buffer \<Rightarrow> real list
   \<Rightarrow> error + (real buffer \<times> real buffer \<times> real list)" where
  "copy_crd_mass_velo frameIn [] off newX newV mass = Inr (newX, newV, mass)"
| "copy_crd_mass_velo frameIn (atom # rest) off newX newV mass =
     (let oldcrd = atom * 3 in
      and_then (memcpy newX off (X frameIn) oldcrd 3) (\<lambda>newX'.
      and_then (memcpy newV off (V frameIn) oldcrd 3) (\<lambda>newV'.
      and_then (vec_at (Mass frameIn) atom) (\<lambda>m.
      copy_crd_mass_velo frameIn rest (off + 3) newX' newV' (mass @ [m])))))"

fun copy_crd_mass ::
  "Frame \<Rightarrow> AtomMask \<Rightarrow> int \<Rightarrow> real buffer \<Rightarrow> real list \<Rightarrow> error + (real buffer \<times> real list)" where
  "copy_crd_mass frameIn [] off newX mass = Inr (newX, mass)"
| "copy_crd_mass frameIn (atom # rest) off newX mass =
     and_then (memcpy newX off (X frameIn) (atom * 3) 3) (\<lambda>newX'.
     and_then (vec_at (Mass frameIn) atom) (\<lambda>m.
     copy_crd_mass frameIn rest (off + 3) newX' (mass @ [m])))"

text \<open>The loop \<open>memcpy(newXptr, Xin + atom * 3, COORDSIZE_); newXptr += 3\<close> over a sequence
  of atom indices; it is also the loop of the other copies by mask and by map.\<close>

fun copy_crd :: "real buffer \<Rightarrow> AtomMask \<Rightarrow> int \<Rightarrow> real buffer \<Rightarrow> error + real buffer" where
  "copy_crd Xin [] off newX = Inr newX"
| "copy_crd Xin (atom # rest) off newX =
     and_then (memcpy newX off Xin (atom * 3) 3) (\<lambda>newX'. copy_crd Xin rest (off + 3) newX')"

definition Frame_by_mask :: "Frame \<Rightarrow> AtomMask \<Rightarrow> error + Frame" where
  "Frame_by_mask frameIn maskIn =
     (let n = Nselected maskIn;
          this = \<lparr>natom = n, maxnatom = n, ncoord = n * 3, T = T frameIn,
                  X = Null, V = Null, Mass = [], box = replicate 6 undefined\<rparr>
      in and_then
           (if ncoord this > 0 then
              (let X1 = new_double (ncoord this) in
               if Mass frameIn \<noteq> [] then
                 (if V frameIn \<noteq> Null then
                    and_then (copy_crd_mass_velo frameIn maskIn 0 X1 (new_double (ncoord this)) [])
                      (\<lambda>(X', V', M'). Inr (this\<lparr>X := X', V := V', Mass := M'\<rparr>))
                  else
                    and_then (copy_crd_mass frameIn maskIn 0 X1 [])
                      (\<lambda>(X', M'). Inr (this\<lparr>X := X', Mass := M'\<rparr>)))
               else
                 and_then (copy_crd (X frameIn) maskIn 0 X1) (\<lambda>X'. Inr (this\<lparr>X := X'\<rparr>)))
            else Inr this)
           (\<lambda>this'. Inr (this'\<lparr>box := box frameIn\<rparr>)))"

subsection \<open>Frame::SetReferenceByMap and Frame::SetTargetByMap\<close>

text \<open>\<open>newX\<close> is \<open>newXptr - X_\<close> and \<open>refptr\<close> is the read position in \<open>refIn.X_\<close>.\<close>

fun SetReferenceByMap_loop ::
  "real buffer \<Rightarrow> int \<Rightarrow> real buffer \<Rightarrow> int \<Rightarrow> int list \<Rightarrow> error + (real buffer \<times> int)" where
  "SetReferenceByMap_loop Xp newX refX refptr [] = Inr (Xp, newX)"
| "SetReferenceByMap_loop Xp newX refX refptr (refatom # rest) =
     (if refatom \<noteq> - 1 then
        and_then (memcpy Xp newX refX refptr 3)
          (\<lambda>Xp'. SetReferenceByMap_loop Xp' (newX + 3) refX (refptr + 3) rest)
      else SetReferenceByMap_loop Xp newX refX (refptr + 3) rest)"

definition SetReferenceByMap :: "Frame \<Rightarrow> Frame \<Rightarrow> int list \<Rightarrow> error + Frame" where
  "SetReferenceByMap this refIn mapIn =
     (if natom refIn > maxnatom this then Inl FrameTooLarge
      else if int (length mapIn) \<noteq> natom refIn then Inl MapSizeMismatch
      else and_then (SetReferenceByMap_loop (X this) 0 (X refIn) 0 mapIn)
             (\<lambda>(X', newX). Inr (this\<lparr>X := X', ncoord := newX, natom := newX sdiv 3\<rparr>)))"

fun SetTargetByMap_loop ::
  "real buffer \<Rightarrow> int \<Rightarrow> real buffer \<Rightarrow> int list \<Rightarrow> error + (real buffer \<times> int)" where
  "SetTargetByMap_loop Xp newX tgtX [] = Inr (Xp, newX)"
| "SetTargetByMap_loop Xp newX tgtX (refatom # rest) =
     (if refatom \<noteq> - 1 then
        and_then (memcpy Xp newX tgtX (refatom * 3) 3)
          (\<lambda>Xp'. SetTargetByMap_loop Xp' (newX + 3) tgtX rest)
      else SetTargetByMap_loop Xp newX tgtX rest)"

definition SetTargetByMap :: "Frame \<Rightarrow> Frame \<Rightarrow> int list \<Rightarrow> error + Frame" where
  "SetTargetByMap this tgtIn mapIn =
     (if natom tgtIn > maxnatom this then Inl FrameTooLarge
      else if int (length mapIn) \<noteq> natom tgtIn then Inl MapSizeMismatch
      else and_then (SetTargetByMap_loop (X this) 0 (X tgtIn) mapIn)
             (\<lambda>(X', newX). Inr (this\<lparr>X := X', ncoord := newX, natom := newX sdiv 3\<rparr>)))"

subsection \<open>Frame::Divide\<close>

text \<open>\<open>a / b\<close> on doubles; a zero divisor gives an infinity or a NaN.\<close>

definition fdiv :: "real \<Rightarrow> real \<Rightarrow> error + real" where
  "fdiv a b = (if b = 0 then Inl NotANumber else Inr (a / b))"

text \<open>\<open>sqrt(a)\<close> on doubles where the sign of \<open>a\<close> is not evident; a negative argument gives
  a NaN.\<close>

definition fsqrt :: "real \<Rightarrow> error + real" where
  "fsqrt a = (if a < 0 then Inl NotANumber else Inr (sqrt a))"

text \<open>\<open>SMALL\<close> comes from Constants.h, which is not among the sources: it is a parameter
  of every function that compares against it.\<close>

function Divide_frame_loop ::
  "real buffer \<Rightarrow> real buffer \<Rightarrow> real \<Rightarrow> int \<Rightarrow> int \<Rightarrow> error + real buffer" where
  "Divide_frame_loop Xp Xd divisor i n =
     (if i < n then
        and_then (rd Xd i) (\<lambda>d.
        and_then (fdiv d divisor) (\<lambda>q.
        and_then (wr Xp i q) (\<lambda>Xp'.
        Divide_frame_loop Xp' Xd divisor (i + 1) n)))
      else Inr Xp)"
  by pat_completeness auto
termination
  by (relation "measure (\<lambda>(Xp, Xd, divisor, i, n). nat (n - i))") auto

declare Divide_frame_loop.simps [simp del]

definition Divide_frame :: "real \<Rightarrow> Frame \<Rightarrow> Frame \<Rightarrow> real \<Rightarrow> error + Frame" where
  "Divide_frame SMALL this dividend divisor =
     (if divisor < SMALL then Inl DivideByZero
      else if natom this \<noteq> natom dividend then Inl DifferentNatom
      else and_then (Divide_frame_loop (X this) (X dividend) divisor 0 (ncoord this))
             (\<lambda>X'. Inr (this\<lparr>X := X'\<rparr>)))"

function Divide_loop :: "real buffer \<Rightarrow> real \<Rightarrow> int \<Rightarrow> int \<Rightarrow> error + real buffer" where
  "Divide_loop Xp divisor i n =
     (if i < n then
        and_then (rd Xp i) (\<lambda>x.
        and_then (fdiv x divisor) (\<lambda>q.
        and_then (wr Xp i q) (\<lambda>Xp'.
        Divide_loop Xp' divisor (i + 1) n)))
      else Inr Xp)"
  by pat_completeness auto
termination
  by (relation "measure (\<lambda>(Xp, divisor, i, n). nat (n - i))") auto

declare Divide_loop.simps [simp del]

definition Divide :: "real \<Rightarrow> Frame \<Rightarrow> real \<Rightarrow> error + Frame" where
  "Divide SMALL this divisor =
     (if divisor < SMALL then Inl DivideByZero
      else and_then (Divide_loop (X this) divisor 0 (ncoord this))
             (\<lambda>X'. Inr (this\<lparr>X := X'\<rparr>)))"

subsection \<open>Frame::SetFromCRD\<close>

text \<open>A \<open>CRDtype\<close> is a \<open>std::vector<float>\<close>. The first loop stores the coordinates, the
  second the trailing box values (\<open>box_\<close> has six cells).\<close>

function SetFromCRD_crd :: "real buffer \<Rightarrow> real list \<Rightarrow> int \<Rightarrow> int \<Rightarrow> error + real buffer" where
  "SetFromCRD_crd Xp farray ix f_ncoord =
     (if ix < f_ncoord then
        and_then (vec_at farray ix) (\<lambda>v.
        and_then (wr Xp ix v) (\<lambda>Xp'.
        SetFromCRD_crd Xp' farray (ix + 1) f_ncoord))
      else Inr Xp)"
  by pat_completeness auto
termination
  by (relation "measure (\<lambda>(Xp, farray, ix, f_ncoord). nat (f_ncoord - ix))") auto

declare SetFromCRD_crd.simps [simp del]

function SetFromCRD_box :: "real list \<Rightarrow> real list \<Rightarrow> int \<Rightarrow> int \<Rightarrow> int \<Rightarrow> error + real list" where
  "SetFromCRD_box bx farray ib numBoxCrd f_ncoord =
     (if ib < numBoxCrd then
        and_then (vec_at farray f_ncoord) (\<lambda>v.
        and_then (wr (Buf bx) ib v) (\<lambda>bx'.
        SetFromCRD_box (cells bx') farray (ib + 1) numBoxCrd (f_ncoord + 1)))
      else Inr bx)"
  by pat_completeness auto
termination
  by (relation "measure (\<lambda>(bx, farray, ib, numBoxCrd, f_ncoord). nat (numBoxCrd - ib))") auto

declare SetFromCRD_box.simps [simp del]

definition SetFromCRD :: "Frame \<Rightarrow> real list \<Rightarrow> int \<Rightarrow> error + Frame" where
  "SetFromCRD this farray numBoxCrd =
     (let f_ncoord = int (length farray) - numBoxCrd in
      if f_ncoord > maxnatom this * 3 then Inl ArrayTooLarge
      else
        (let this1 = this\<lparr>ncoord := f_ncoord\<rparr>;
             this2 = this1\<lparr>natom := ncoord this1 sdiv 3\<rparr>
         in and_then (SetFromCRD_crd (X this2) farray 0 f_ncoord) (\<lambda>X'.
            and_then (SetFromCRD_box (box this2) farray 0 numBoxCrd f_ncoord) (\<lambda>box'.
            Inr (this2\<lparr>X := X', box := box'\<rparr>)))))"

text \<open>The overload with a mask: \<open>natom_\<close> first, then \<open>ncoord_ = natom_ * 3\<close>.\<close>

fun SetFromCRD_mask_loop :: "real buffer \<Rightarrow> real list \<Rightarrow> int \<Rightarrow> AtomMask \<Rightarrow> error + real buffer" where
  "SetFromCRD_mask_loop Xp farray ix [] = Inr Xp"
| "SetFromCRD_mask_loop Xp farray ix (atom # rest) =
     (let ia = atom * 3 in
      and_then (vec_at farray ia) (\<lambda>v0. and_then (wr Xp ix v0) (\<lambda>X1.
      and_then (vec_at farray (ia + 1)) (\<lambda>v1. and_then (wr X1 (ix + 1) v1) (\<lambda>X2.
      and_then (vec_at farray (ia + 2)) (\<lambda>v2. and_then (wr X2 (ix + 2) v2) (\<lambda>X3.
      SetFromCRD_mask_loop X3 farray (ix + 3) rest)))))))"

definition SetFromCRD_mask :: "Frame \<Rightarrow> real list \<Rightarrow> int \<Rightarrow> AtomMask \<Rightarrow> error + Frame" where
  "SetFromCRD_mask this farray numBoxCrd maskIn =
     (if Nselected maskIn > maxnatom this then Inl MaskTooLarge
      else
        (let this1 = this\<lparr>natom := Nselected maskIn\<rparr>;
             this2 = this1\<lparr>ncoord := natom this1 * 3\<rparr>
         in and_then (SetFromCRD_mask_loop (X this2) farray 0 maskIn) (\<lambda>X'.
            and_then (SetFromCRD_box (box this2) farray 0 numBoxCrd
                        (int (length farray) - numBoxCrd)) (\<lambda>box'.
            Inr (this2\<lparr>X := X', box := box'\<rparr>)))))"

subsection \<open>Frame::ReallocateX and Frame::AddXYZ\<close>

text \<open>\<open>ReallocateX\<close> grows the capacity by 500 atoms and moves the \<open>natom_\<close> atoms held to
  the new array (a negative count would be a huge \<open>size_t\<close>).\<close>

definition ReallocateX :: "Frame \<Rightarrow> error + Frame" where
  "ReallocateX this =
     (let this1 = this\<lparr>maxnatom := maxnatom this + 500\<rparr>;
          newX = new_double (maxnatom this1 * 3)
      in if X this1 \<noteq> Null then
           (if natom this1 < 0 then Inl MemoryFault
            else and_then (memcpy newX 0 (X this1) 0 (nat (natom this1 * 3)))
                   (\<lambda>newX'. Inr (this1\<lparr>X := newX'\<rparr>)))
         else Inr (this1\<lparr>X := newX\<rparr>))"

text \<open>\<open>XYZin\<close> points to the three coordinates to append, or is \<open>NULL\<close>.\<close>

definition AddXYZ :: "Frame \<Rightarrow> real buffer \<Rightarrow> error + Frame" where
  "AddXYZ this XYZin =
     (if XYZin = Null then Inr this
      else
        and_then (if natom this \<ge> maxnatom this then ReallocateX this else Inr this) (\<lambda>this.
        and_then (memcpy (X this) (ncoord this) XYZin 0 3) (\<lambda>X'.
        Inr (this\<lparr>X := X', natom := natom this + 1, ncoord := ncoord this + 3\<rparr>))))"

subsection \<open>Vectors, matrices and the inline helpers of Frame.h\<close>

text \<open>Modelled from the spec: classes \<open>Vec3\<close> and \<open>Matrix_3x3\<close>, whose headers are not
  among the sources ("small fixed-size linear-algebra helpers: 3-vectors and 3x3 matrices").
  A \<open>Vec3\<close> is three doubles; a \<open>Matrix_3x3\<close> is nine, \<open>m0\<close> to \<open>m8\<close> for \<open>M[0]\<close> to
  \<open>M[8]\<close>, as \<open>RMSD_CenteredRef\<close> indexes them.\<close>

type_synonym Vec3 = "real \<times> real \<times> real"

datatype Matrix_3x3 =
  Matrix_3x3 (m0: real) (m1: real) (m2: real) (m3: real) (m4: real) (m5: real)
             (m6: real) (m7: real) (m8: real)

definition vx :: "Vec3 \<Rightarrow> real" where
  "vx p = fst p"

definition vy :: "Vec3 \<Rightarrow> real" where
  "vy p = fst (snd p)"

definition vz :: "Vec3 \<Rightarrow> real" where
  "vz p = snd (snd p)"

definition Neg :: "Vec3 \<Rightarrow> Vec3" where
  "Neg v = (case v of (x, y, z) \<Rightarrow> (- x, - y, - z))"

text \<open>The atoms held in an array of cells: atom \<open>i\<close> is cells \<open>3i\<close>, \<open>3i + 1\<close>, \<open>3i + 2\<close>.\<close>

definition atom_xyz :: "real list \<Rightarrow> nat \<Rightarrow> Vec3" where
  "atom_xyz cs i = (cs ! (3 * i), cs ! (3 * i + 1), cs ! (3 * i + 2))"

definition atoms_of :: "real list \<Rightarrow> nat \<Rightarrow> Vec3 list" where
  "atoms_of cs n = map (atom_xyz cs) [0..<n]"

definition flat :: "Vec3 list \<Rightarrow> real list" where
  "flat ps = concat (map (\<lambda>(x, y, z). [x, y, z]) ps)"

text \<open>The first \<open>n\<close> atoms of \<open>cs\<close> moved by \<open>v\<close>, the cells after them as they were.\<close>

definition shifted :: "Vec3 \<Rightarrow> nat \<Rightarrow> real list \<Rightarrow> real list" where
  "shifted v n cs =
     (case v of (v0, v1, v2) \<Rightarrow>
        flat (map (\<lambda>(x, y, z). (x + v0, y + v1, z + v2)) (atoms_of cs n)) @ drop (3 * n) cs)"

text \<open>The weighted mean position \<open>(\<Sum> w\<^sub>i p\<^sub>i) / (\<Sum> w\<^sub>i)\<close>.\<close>

definition wsum :: "real list \<Rightarrow> real list \<Rightarrow> real" where
  "wsum ws xs = sum_list (map2 (*) ws xs)"

definition centroid :: "real list \<Rightarrow> Vec3 list \<Rightarrow> Vec3" where
  "centroid ws ps =
     (wsum ws (map vx ps) / sum_list ws,
      wsum ws (map vy ps) / sum_list ws,
      wsum ws (map vz ps) / sum_list ws)"

text \<open>Modelled from the spec: \<open>Frame::Translate\<close>, an inline member of Frame.h, which is
  not among the sources. "Translate / negate-then-translate: adds (or subtracts) a constant
  vector to every atom's coordinates."\<close>

definition Translate :: "Frame \<Rightarrow> Vec3 \<Rightarrow> error + Frame" where
  "Translate this Vec =
     (if natom this \<le> 0 then Inr this
      else case X this of
          Buf cs \<Rightarrow>
            if natom this * 3 \<le> int (length cs)
            then Inr (this\<lparr>X := Buf (shifted Vec (nat (natom this)) cs)\<rparr>)
            else Inl MemoryFault
        | NaNBuf cs \<Rightarrow> Inl NotANumber
        | Null \<Rightarrow> Inl MemoryFault)"

text \<open>Modelled from the spec: the same translation by a vector that is not a number. A
  number plus or minus a NaN or an infinity is not a number, so the coordinates of the
  \<open>natom_\<close> atoms are absent afterwards; the cells behind them are as they were.\<close>

definition Translate_NaN :: "Frame \<Rightarrow> error + Frame" where
  "Translate_NaN this =
     (if natom this \<le> 0 then Inr this
      else case X this of
          Buf cs \<Rightarrow>
            if natom this * 3 \<le> int (length cs)
            then Inr (this\<lparr>X := NaNBuf (replicate (3 * nat (natom this)) None
                                          @ map Some (drop (3 * nat (natom this)) cs))\<rparr>)
            else Inl MemoryFault
        | NaNBuf cs \<Rightarrow>
            if natom this * 3 \<le> int (length cs)
            then Inr (this\<lparr>X := NaNBuf (replicate (3 * nat (natom this)) None
                                          @ drop (3 * nat (natom this)) cs)\<rparr>)
            else Inl MemoryFault
        | Null \<Rightarrow> Inl MemoryFault)"

text \<open>Modelled from the spec: \<open>Frame::NegTranslate\<close> of Frame.h, the subtracting variant of
  the same sentence. Its argument is the centre that one of the two functions below
  returned, which may be absent.\<close>

definition NegTranslate :: "Frame \<Rightarrow> Vec3 option \<Rightarrow> error + Frame" where
  "NegTranslate this Vec =
     (case Vec of Some v \<Rightarrow> Translate this (Neg v) | None \<Rightarrow> Translate_NaN this)"

text \<open>Modelled from the spec: \<open>Frame::VGeometricCenter(startAtom, stopAtom)\<close> of Frame.h.
  "Center-of-mass / geometric-center computations over a mask or an atom-index range:
  mass-weighted if a mass array is present and requested, else unweighted average position."
  The mean over no atoms is a division by zero: the vector returned is then not a number,
  and absent (\<open>None\<close>) here. (The model stops at a range that ends before it starts, to
  which the sentence gives no meaning, and at a mean over cells that are not numbers.)\<close>

definition VGeometricCenter :: "Frame \<Rightarrow> int \<Rightarrow> int \<Rightarrow> error + Vec3 option" where
  "VGeometricCenter this startAtom stopAtom =
     (case X this of
        NaNBuf cs \<Rightarrow> Inl NotANumber
      | _ \<Rightarrow>
        if startAtom < 0 \<or> int (length (cells (X this))) < stopAtom * 3 then Inl MemoryFault
        else if stopAtom = startAtom then Inr None
        else if stopAtom < startAtom then Inl NotANumber
        else Inr (Some (centroid (replicate (nat (stopAtom - startAtom)) 1)
                          (drop (nat startAtom) (atoms_of (cells (X this)) (nat stopAtom))))))"

text \<open>Modelled from the spec: \<open>Frame::VCenterOfMass(startAtom, stopAtom)\<close> of Frame.h, the
  mass-weighted case of the same sentence. A zero total mass is a division by zero, and
  the vector returned is absent. (The model stops at a mean over cells that are not
  numbers.)\<close>

definition VCenterOfMass :: "Frame \<Rightarrow> int \<Rightarrow> int \<Rightarrow> error + Vec3 option" where
  "VCenterOfMass this startAtom stopAtom =
     (case X this of
        NaNBuf cs \<Rightarrow> Inl NotANumber
      | _ \<Rightarrow>
        if startAtom < 0 \<or> int (length (cells (X this))) < stopAtom * 3
           \<or> int (length (Mass this)) < stopAtom then Inl MemoryFault
        else
          (let ws = drop (nat startAtom) (take (nat stopAtom) (Mass this)) in
           if sum_list ws = 0 then Inr None
           else Inr (Some (centroid ws
                             (drop (nat startAtom) (atoms_of (cells (X this)) (nat stopAtom)))))))"

subsection \<open>Frame::RMSD_CenteredRef and Frame::RMSD\<close>

text \<open>The two loops that sum the coordinates: with masses (\<open>mass\<close> is the position of the
  iterator in \<open>Mass_\<close>) and without.\<close>

function center_mass_loop ::
  "real buffer \<Rightarrow> real list \<Rightarrow> int \<Rightarrow> int \<Rightarrow> int \<Rightarrow> real \<Rightarrow> Vec3 \<Rightarrow> error + (real \<times> Vec3)" where
  "center_mass_loop Xp Masses mass ix n total_mass Trans =
     (if ix < n then
        and_then (vec_at Masses mass) (\<lambda>m.
        and_then (rd Xp ix) (\<lambda>x.
        and_then (rd Xp (ix + 1)) (\<lambda>y.
        and_then (rd Xp (ix + 2)) (\<lambda>z.
        (case Trans of (t0, t1, t2) \<Rightarrow>
           center_mass_loop Xp Masses (mass + 1) (ix + 3) n (total_mass + m)
             (t0 + x * m, t1 + y * m, t2 + z * m))))))
      else Inr (total_mass, Trans))"
  by pat_completeness auto
termination
  by (relation "measure (\<lambda>(Xp, Masses, mass, ix, n, total_mass, Trans). nat (n - ix))") auto

declare center_mass_loop.simps [simp del]

function center_geom_loop :: "real buffer \<Rightarrow> int \<Rightarrow> int \<Rightarrow> Vec3 \<Rightarrow> error + Vec3" where
  "center_geom_loop Xp ix n Trans =
     (if ix < n then
        and_then (rd Xp ix) (\<lambda>x.
        and_then (rd Xp (ix + 1)) (\<lambda>y.
        and_then (rd Xp (ix + 2)) (\<lambda>z.
        (case Trans of (t0, t1, t2) \<Rightarrow>
           center_geom_loop Xp (ix + 3) n (t0 + x, t1 + y, t2 + z)))))
      else Inr Trans)"
  by pat_completeness auto
termination
  by (relation "measure (\<lambda>(Xp, ix, n, Trans). nat (n - ix))") auto

declare center_geom_loop.simps [simp del]

text \<open>The loop that accumulates \<open>mwss\<close> and the Kabsch matrix \<open>rot\<close>.\<close>

function Kabsch_loop ::
  "real buffer \<Rightarrow> real buffer \<Rightarrow> real list \<Rightarrow> bool \<Rightarrow> int \<Rightarrow> int \<Rightarrow> int \<Rightarrow> real \<Rightarrow> Matrix_3x3
   \<Rightarrow> error + (real \<times> Matrix_3x3)" where
  "Kabsch_loop Xp Xr Masses useMassIn mass i n mwss rot =
     (if i < n then
        and_then (rd Xp i) (\<lambda>xt.
        and_then (rd Xp (i + 1)) (\<lambda>yt.
        and_then (rd Xp (i + 2)) (\<lambda>zt.
        and_then (rd Xr i) (\<lambda>xr.
        and_then (rd Xr (i + 1)) (\<lambda>yr.
        and_then (rd Xr (i + 2)) (\<lambda>zr.
        and_then (if useMassIn then vec_at Masses mass else Inr 1) (\<lambda>atom_mass.
        Kabsch_loop Xp Xr Masses useMassIn (if useMassIn then mass + 1 else mass) (i + 3) n
          (mwss + atom_mass * ((xt * xt) + (yt * yt) + (zt * zt) + (xr * xr) + (yr * yr) + (zr * zr)))
          (Matrix_3x3
             (m0 rot + atom_mass * xt * xr) (m1 rot + atom_mass * xt * yr) (m2 rot + atom_mass * xt * zr)
             (m3 rot + atom_mass * yt * xr) (m4 rot + atom_mass * yt * yr) (m5 rot + atom_mass * yt * zr)
             (m6 rot + atom_mass * zt * xr) (m7 rot + atom_mass * zt * yr) (m8 rot + atom_mass * zt * zr)))))))))
      else Inr (mwss, rot))"
  by pat_completeness auto
termination
  by (relation "measure (\<lambda>(Xp, Xr, Masses, useMassIn, mass, i, n, mwss, rot). nat (n - i))") auto

declare Kabsch_loop.simps [simp del]

text \<open>\<open>static inline void normalize(double*)\<close>. For the zero vector \<open>b\<close> is \<open>1.0 / 0.0\<close> and
  every component becomes \<open>0 * inf\<close>, a NaN: the result is then \<open>None\<close>.\<close>

definition normalize :: "Vec3 \<Rightarrow> Vec3 option" where
  "normalize vIn =
     (case vIn of (v0, v1, v2) \<Rightarrow>
        (let n2 = v0 * v0 + v1 * v1 + v2 * v2 in
         if n2 = 0 then None
         else (let b = 1 / sqrt n2 in Some (v0 * b, v1 * b, v2 * b))))"

text \<open>From the sorted eigenvectors to \<open>sig3\<close> and the rotation \<open>U\<close> (the statements between
  the diagonalisation and the final energy). A comparison with a NaN is false, so \<open>sig3\<close> is
  \<open>1\<close> whenever a \<open>b\<close> vector is NaN; \<open>U\<close> is \<open>None\<close> when its entries are NaN.\<close>

definition Kabsch_rotation :: "Matrix_3x3 \<Rightarrow> Matrix_3x3 \<Rightarrow> real \<times> Matrix_3x3 option" where
  "Kabsch_rotation rot Evector =
     (let E0 = m0 Evector; E1 = m1 Evector; E2 = m2 Evector;
          E3 = m3 Evector; E4 = m4 Evector; E5 = m5 Evector;
          E6 = (E1 * E5) - (E2 * E4);
          E7 = (E2 * E3) - (E0 * E5);
          E8 = (E0 * E4) - (E1 * E3);
          b0 = normalize (E0 * m0 rot + E1 * m3 rot + E2 * m6 rot,
                          E0 * m1 rot + E1 * m4 rot + E2 * m7 rot,
                          E0 * m2 rot + E1 * m5 rot + E2 * m8 rot);
          b1 = normalize (E3 * m0 rot + E4 * m3 rot + E5 * m6 rot,
                          E3 * m1 rot + E4 * m4 rot + E5 * m7 rot,
                          E3 * m2 rot + E4 * m5 rot + E5 * m8 rot);
          b2 = normalize (E6 * m0 rot + E7 * m3 rot + E8 * m6 rot,
                          E6 * m1 rot + E7 * m4 rot + E8 * m7 rot,
                          E6 * m2 rot + E7 * m5 rot + E8 * m8 rot)
      in case (b0, b1) of
          (Some (b_0, b_1, b_2), Some (b_3, b_4, b_5)) \<Rightarrow>
            (let cp0 = (b_1 * b_5) - (b_2 * b_4);
                 cp1 = (b_2 * b_3) - (b_0 * b_5);
                 cp2 = (b_0 * b_4) - (b_1 * b_3);
                 sig3 = (case b2 of
                           Some (b_6, b_7, b_8) \<Rightarrow>
                             if (cp0 * b_6 + cp1 * b_7 + cp2 * b_8) < 0 then - 1 else 1
                         | None \<Rightarrow> 1)
             in (sig3,
                 Some (Matrix_3x3
                   ((E0 * b_0) + (E3 * b_3) + (E6 * cp0))
                   ((E1 * b_0) + (E4 * b_3) + (E7 * cp0))
                   ((E2 * b_0) + (E5 * b_3) + (E8 * cp0))
                   ((E0 * b_1) + (E3 * b_4) + (E6 * cp1))
                   ((E1 * b_1) + (E4 * b_4) + (E7 * cp1))
                   ((E2 * b_1) + (E5 * b_4) + (E8 * cp1))
                   ((E0 * b_2) + (E3 * b_5) + (E6 * cp2))
                   ((E1 * b_2) + (E4 * b_5) + (E7 * cp2))
                   ((E2 * b_2) + (E5 * b_5) + (E8 * cp2)))))
        | _ \<Rightarrow> (1, None))"

text \<open>The last statement of \<open>RMSD_CenteredRef\<close>: \<open>if (rms_return < 0) rms_return = 0.0;
  else rms_return = sqrt((2.0 * rms_return) / total_mass);\<close>\<close>

definition clamped_root :: "real \<Rightarrow> real \<Rightarrow> error + real" where
  "clamped_root rms_return total_mass =
     (if rms_return < 0 then Inr 0 else fsqrt ((2 * rms_return) / total_mass))"

text \<open>What a call leaves behind: the value returned, the error printed (if any), this frame,
  and the two reference arguments \<open>U\<close> and \<open>Trans\<close>.\<close>

record rmsd_result =
  returned :: real
  reported :: "error option"
  this_out :: Frame
  U_out :: "Matrix_3x3 option"
  Trans_out :: Vec3

text \<open>\<open>Matrix_3x3::TransposeMult\<close> and \<open>Matrix_3x3::Diagonalize_Sort\<close> are not among the
  sources; they are parameters. \<open>Diagonalize_Sort\<close> gives the eigenvalues and the matrix of
  eigenvectors, or \<open>None\<close> when it returns nonzero.\<close>

definition RMSD_CenteredRef ::
  "real \<Rightarrow> (Matrix_3x3 \<Rightarrow> Matrix_3x3 \<Rightarrow> Matrix_3x3) \<Rightarrow> (Matrix_3x3 \<Rightarrow> (Vec3 \<times> Matrix_3x3) option)
   \<Rightarrow> Frame \<Rightarrow> Frame \<Rightarrow> Matrix_3x3 option \<Rightarrow> bool \<Rightarrow> error + rmsd_result" where
  "RMSD_CenteredRef SMALL TransposeMult Diagonalize_Sort this Ref U useMassIn =
     and_then
       (if useMassIn then center_mass_loop (X this) (Mass this) 0 0 (ncoord this) 0 (0, 0, 0)
        else and_then (center_geom_loop (X this) 0 (ncoord this) (0, 0, 0))
               (\<lambda>Trans. Inr (real_of_int (natom this), Trans)))
       (\<lambda>(total_mass, Trans).
          if total_mass < SMALL then
            Inr \<lparr>returned = - 1, reported = Some DivideByZero, this_out = this,
                 U_out = U, Trans_out = Trans\<rparr>
          else
            (case Trans of (t0, t1, t2) \<Rightarrow>
             and_then (fdiv t0 total_mass) (\<lambda>t0.
             and_then (fdiv t1 total_mass) (\<lambda>t1.
             and_then (fdiv t2 total_mass) (\<lambda>t2.
             (let Trans = Neg (t0, t1, t2) in
              and_then (Translate this Trans) (\<lambda>this.
              and_then (Kabsch_loop (X this) (X Ref) (Mass this) useMassIn 0 0 (ncoord this) 0
                          (Matrix_3x3 0 0 0 0 0 0 0 0 0)) (\<lambda>(mwss, rot).
              (let mwss = mwss * 0.5;
                   Evector = TransposeMult rot rot
               in case Diagonalize_Sort Evector of
                   None \<Rightarrow>
                     Inr \<lparr>returned = 0, reported = None, this_out = this,
                          U_out = U, Trans_out = Trans\<rparr>
                 | Some (Eigenvalue, Evector) \<Rightarrow>
                     (case Kabsch_rotation rot Evector of (sig3, U) \<Rightarrow>
                      (case Eigenvalue of (ev0, ev1, ev2) \<Rightarrow>
                       (let rms_return = mwss - sqrt \<bar>ev0\<bar> - sqrt \<bar>ev1\<bar> - (sig3 * sqrt \<bar>ev2\<bar>)
                        in and_then (clamped_root rms_return total_mass) (\<lambda>rms_return.
                           Inr \<lparr>returned = rms_return, reported = None, this_out = this,
                                U_out = U, Trans_out = Trans\<rparr>)))))))))))))"

text \<open>The fit that also centres the reference. Beside the result of \<open>RMSD_CenteredRef\<close> it
  leaves the reference frame and \<open>refTrans\<close>. A centre that is not a number does not end the
  call: \<open>refTrans\<close> is then absent, and so are the coordinates of the reference that
  \<open>RMSD_CenteredRef\<close> receives.\<close>

definition RMSD ::
  "real \<Rightarrow> (Matrix_3x3 \<Rightarrow> Matrix_3x3 \<Rightarrow> Matrix_3x3) \<Rightarrow> (Matrix_3x3 \<Rightarrow> (Vec3 \<times> Matrix_3x3) option)
   \<Rightarrow> Frame \<Rightarrow> Frame \<Rightarrow> Matrix_3x3 option \<Rightarrow> bool
   \<Rightarrow> error + (rmsd_result \<times> Frame \<times> Vec3 option)" where
  "RMSD SMALL TransposeMult Diagonalize_Sort this Ref U useMassIn =
     and_then
       (if useMassIn then VCenterOfMass Ref 0 (natom this)
        else VGeometricCenter Ref 0 (natom this)) (\<lambda>refTrans.
     and_then (NegTranslate Ref refTrans) (\<lambda>Ref.
     and_then (RMSD_CenteredRef SMALL TransposeMult Diagonalize_Sort this Ref U useMassIn)
       (\<lambda>r. Inr (r, Ref, refTrans))))"

subsection \<open>Frame::DISTRMSD\<close>

definition INT_MAX :: int where
  "INT_MAX = 2147483647"

text \<open>The distance between the atoms at offsets \<open>a10\<close> and \<open>a20\<close> of one array.\<close>

definition pair_dist :: "real buffer \<Rightarrow> int \<Rightarrow> int \<Rightarrow> error + real" where
  "pair_dist Xp a10 a20 =
     (let a11 = a10 + 1; a12 = a10 + 2; a21 = a20 + 1; a22 = a20 + 2 in
      and_then (rd Xp a10) (\<lambda>x1. and_then (rd Xp a20) (\<lambda>x2.
      and_then (rd Xp a11) (\<lambda>y1. and_then (rd Xp a21) (\<lambda>y2.
      and_then (rd Xp a12) (\<lambda>z1. and_then (rd Xp a22) (\<lambda>z2.
      (let x = x1 - x2; x = x * x;
           y = y1 - y2; y = y * y;
           z = z1 - z2; z = z * z
       in Inr (sqrt (x + y + z))))))))))"

function DISTRMSD_inner ::
  "real buffer \<Rightarrow> real buffer \<Rightarrow> int \<Rightarrow> int \<Rightarrow> int \<Rightarrow> int \<Rightarrow> real \<Rightarrow> error + real" where
  "DISTRMSD_inner Xp Xr n a10 atom2 a20 rms_return =
     (if atom2 < n then
        and_then (pair_dist Xp a10 a20) (\<lambda>TgtDist.
        and_then (pair_dist Xr a10 a20) (\<lambda>RefDist.
        (let diff = TgtDist - RefDist; diff = diff * diff in
         DISTRMSD_inner Xp Xr n a10 (atom2 + 1) (a20 + 3) (rms_return + diff))))
      else Inr rms_return)"
  by pat_completeness auto
termination
  by (relation "measure (\<lambda>(Xp, Xr, n, a10, atom2, a20, rms_return). nat (n - atom2))") auto

declare DISTRMSD_inner.simps [simp del]

function DISTRMSD_outer ::
  "real buffer \<Rightarrow> real buffer \<Rightarrow> int \<Rightarrow> int \<Rightarrow> int \<Rightarrow> real \<Rightarrow> error + real" where
  "DISTRMSD_outer Xp Xr n atom1 a10 rms_return =
     (if atom1 < n - 1 then
        and_then (DISTRMSD_inner Xp Xr n a10 (atom1 + 1) (a10 + 3) rms_return)
          (\<lambda>rms_return. DISTRMSD_outer Xp Xr n (atom1 + 1) (a10 + 3) rms_return)
      else Inr rms_return)"
  by pat_completeness auto
termination
  by (relation "measure (\<lambda>(Xp, Xr, n, atom1, a10, rms_return). nat (n - atom1))") auto

declare DISTRMSD_outer.simps [simp del]

text \<open>The divisor: \<open>((natom_ * natom_) - natom_) / 2\<close> in \<open>int\<close>, then converted. A product
  beyond \<open>INT_MAX\<close> is a signed overflow.\<close>

definition Ndistances :: "Frame \<Rightarrow> error + real" where
  "Ndistances this =
     (if natom this * natom this > INT_MAX then Inl IntOverflow
      else Inr (real_of_int (((natom this * natom this) - natom this) sdiv 2)))"

text \<open>The final division gives a NaN for \<open>0 / 0\<close>.\<close>

definition DISTRMSD :: "Frame \<Rightarrow> Frame \<Rightarrow> error + real" where
  "DISTRMSD this Ref =
     and_then (Ndistances this) (\<lambda>Ndistances.
     and_then (DISTRMSD_outer (X this) (X Ref) (natom this) 0 0 0) (\<lambda>rms_return.
     and_then (fdiv rms_return Ndistances) (\<lambda>TgtDist.
     fsqrt TgtDist)))"

subsection \<open>Frame::AddByMask\<close>

text \<open>One statement \<open>X_[i] += frameIn.X_[j]\<close>.\<close>

definition add_assign :: "real buffer \<Rightarrow> int \<Rightarrow> real buffer \<Rightarrow> int \<Rightarrow> error + real buffer" where
  "add_assign Xp i Xin j =
     and_then (rd Xin j) (\<lambda>a. and_then (rd Xp i) (\<lambda>x. wr Xp i (x + a)))"

text \<open>The loop of \<open>AddByMask\<close> over the mask iterator; \<open>xidx\<close> is the running destination
  index.\<close>

fun AddByMask_loop :: "real buffer \<Rightarrow> int \<Rightarrow> real buffer \<Rightarrow> AtomMask \<Rightarrow> error + real buffer" where
  "AddByMask_loop Xp xidx Xin [] = Inr Xp"
| "AddByMask_loop Xp xidx Xin (atom # rest) =
     (let fidx = atom * 3 in
      and_then (add_assign Xp xidx Xin fidx) (\<lambda>X1.
      and_then (add_assign X1 (xidx + 1) Xin (fidx + 1)) (\<lambda>X2.
      and_then (add_assign X2 (xidx + 2) Xin (fidx + 2)) (\<lambda>X3.
      AddByMask_loop X3 (xidx + 3) Xin rest))))"

definition AddByMask :: "Frame \<Rightarrow> Frame \<Rightarrow> AtomMask \<Rightarrow> error + Frame" where
  "AddByMask this frameIn maskIn =
     (if Nselected maskIn > maxnatom this then Inl MaskTooLarge
      else and_then (AddByMask_loop (X this) 0 (X frameIn) maskIn)
             (\<lambda>X'. Inr (this\<lparr>X := X'\<rparr>)))"

section \<open>Well-formed frames, selections and example frames\<close>

text \<open>The three cells of atom \<open>a\<close>, and the cells of the atoms of a selection, one atom
  after the other in the order of the selection.\<close>

definition crd :: "'a list \<Rightarrow> int \<Rightarrow> 'a list" where
  "crd cs a = take 3 (drop (nat (a * 3)) cs)"

definition selected :: "'a list \<Rightarrow> AtomMask \<Rightarrow> 'a list" where
  "selected cs maskIn = concat (map (crd cs) maskIn)"

text \<open>The storage invariant of the class: \<open>X_\<close> has \<open>maxnatom_ * 3\<close> cells, or is \<open>NULL\<close>
  when there is no capacity. The cells of an allocated frame are numbers.\<close>

definition allocated :: "Frame \<Rightarrow> bool" where
  "allocated f = (case X f of
      Buf cs \<Rightarrow> int (length cs) = maxnatom f * 3
    | Null \<Rightarrow> maxnatom f \<le> 0
    | NaNBuf cs \<Rightarrow> False)"

text \<open>A frame that holds \<open>natom_\<close> atoms within its capacity.\<close>

definition wf_Frame :: "Frame \<Rightarrow> bool" where
  "wf_Frame f = (0 \<le> natom f \<and> natom f \<le> maxnatom f \<and> ncoord f = natom f * 3 \<and> allocated f)"

text \<open>A mask over a frame: every selected index is an atom of the frame.\<close>

definition selects :: "AtomMask \<Rightarrow> Frame \<Rightarrow> bool" where
  "selects maskIn f = list_all (\<lambda>a. 0 \<le> a \<and> a < natom f) maskIn"

text \<open>Masses, when there are any, cover the atoms; velocities, when there are any, are a
  live array of the capacity of the frame.\<close>

definition masses_ok :: "Frame \<Rightarrow> bool" where
  "masses_ok f = (Mass f = [] \<or> natom f \<le> int (length (Mass f)))"

definition velocities_ok :: "Frame \<Rightarrow> bool" where
  "velocities_ok f = (case V f of
      Buf vs \<Rightarrow> int (length vs) = maxnatom f * 3
    | Null \<Rightarrow> True
    | NaNBuf vs \<Rightarrow> False)"

text \<open>Example frames.\<close>

definition ex_this :: Frame where
  "ex_this = \<lparr>natom = 2, maxnatom = 2, ncoord = 6, T = 300, X = Buf [1, 2, 3, 4, 5, 6],
               V = Null, Mass = [], box = [0, 0, 0, 0, 0, 0]\<rparr>"

definition ex_src :: Frame where
  "ex_src = \<lparr>natom = 3, maxnatom = 3, ncoord = 9, T = 0,
              X = Buf [10, 20, 30, 40, 50, 60, 70, 80, 90],
              V = Null, Mass = [], box = [0, 0, 0, 0, 0, 0]\<rparr>"


definition ex_velo :: Frame where
  "ex_velo = \<lparr>natom = 2, maxnatom = 2, ncoord = 6, T = 300, X = Buf [1, 2, 3, 4, 5, 6],
               V = Buf [7, 8, 9, 10, 11, 12], Mass = [12, 16], box = [30, 30, 30, 90, 90, 90]\<rparr>"

definition ex_velo_nomass :: Frame where
  "ex_velo_nomass = ex_velo\<lparr>Mass := []\<rparr>"

text \<open>The entries of an atom map that are mapped (not \<open>-1\<close>), and the positions in the map
  at which they stand.\<close>

definition mapped_entries :: "int list \<Rightarrow> int list" where
  "mapped_entries mapIn = filter (\<lambda>e. e \<noteq> - 1) mapIn"

definition mapped_positions :: "nat \<Rightarrow> int list \<Rightarrow> int list" where
  "mapped_positions k mapIn = map (int \<circ> fst) (filter (\<lambda>(i, e). e \<noteq> - 1) (enumerate k mapIn))"

text \<open>A map into a frame: every entry is \<open>-1\<close> or an atom of the frame.\<close>

definition maps_into :: "int list \<Rightarrow> Frame \<Rightarrow> bool" where
  "maps_into mapIn f = list_all (\<lambda>e. e = - 1 \<or> (0 \<le> e \<and> e < natom f)) mapIn"

definition ex_dst :: Frame where
  "ex_dst = \<lparr>natom = 3, maxnatom = 3, ncoord = 9, T = 0,
              X = Buf [1, 2, 3, 4, 5, 6, 7, 8, 9],
              V = Null, Mass = [], box = [0, 0, 0, 0, 0, 0]\<rparr>"

text \<open>The value of \<open>SMALL\<close> used in the examples.\<close>

definition ex_SMALL :: real where
  "ex_SMALL = 1 / 10 ^ 14"

subsection \<open>The quantities of the fit, as the specification names them\<close>

text \<open>The atoms of a frame, and the weight of each: its mass, or 1 without masses.\<close>

definition frame_atoms :: "Frame \<Rightarrow> Vec3 list" where
  "frame_atoms f = atoms_of (cells (X f)) (nat (natom f))"

definition weights :: "Frame \<Rightarrow> bool \<Rightarrow> real list" where
  "weights f useMass =
     (if useMass then take (nat (natom f)) (Mass f) else replicate (nat (natom f)) 1)"

definition total_weight :: "Frame \<Rightarrow> bool \<Rightarrow> real" where
  "total_weight f useMass = sum_list (weights f useMass)"

text \<open>The weighted sum over the atom pairs of two frames of a function of the two positions.\<close>

definition csum :: "(Vec3 \<Rightarrow> Vec3 \<Rightarrow> real) \<Rightarrow> (real \<times> Vec3 \<times> Vec3) list \<Rightarrow> real" where
  "csum g wprs = sum_list (map (\<lambda>(w, p, r). w * g p r) wprs)"

definition norm2 :: "Vec3 \<Rightarrow> real" where
  "norm2 p = vx p * vx p + vy p * vy p + vz p * vz p"

text \<open>\<open>E0\<close>: half the weighted sum of the squared norms of the positions of both frames.\<close>

definition E0_of :: "real list \<Rightarrow> Vec3 list \<Rightarrow> Vec3 list \<Rightarrow> real" where
  "E0_of ws ps rs = csum (\<lambda>p r. norm2 p + norm2 r) (zip ws (zip ps rs)) / 2"

text \<open>\<open>R\<close>: the weighted cross-covariance, this frame's axes as rows, the reference's as
  columns.\<close>

definition covariance :: "real list \<Rightarrow> Vec3 list \<Rightarrow> Vec3 list \<Rightarrow> Matrix_3x3" where
  "covariance ws ps rs =
     (let t = zip ws (zip ps rs) in
      Matrix_3x3
        (csum (\<lambda>p r. vx p * vx r) t) (csum (\<lambda>p r. vx p * vy r) t) (csum (\<lambda>p r. vx p * vz r) t)
        (csum (\<lambda>p r. vy p * vx r) t) (csum (\<lambda>p r. vy p * vy r) t) (csum (\<lambda>p r. vy p * vz r) t)
        (csum (\<lambda>p r. vz p * vx r) t) (csum (\<lambda>p r. vz p * vy r) t) (csum (\<lambda>p r. vz p * vz r) t))"

text \<open>The chirality sign. \<open>through R a\<close> is the vector \<open>a\<close> taken through \<open>R\<close>
  (component \<open>j\<close> is \<open>\<Sum>\<^sub>i a\<^sub>i R\<^sub>i\<^sub>j\<close>) and \<open>eigenvector Evector k\<close> is row \<open>k\<close> of the matrix
  of eigenvectors. The right-handed triad \<open>a0\<close>, \<open>a1\<close>, \<open>a0 \<times> a1\<close> has the images
  \<open>b0\<close>, \<open>b1\<close>, \<open>b2\<close>; \<open>handedness\<close> is the triple product \<open>(b0 \<times> b1) \<bullet> b2\<close>, negative when the
  images form a left-handed triple, and the sign is \<open>-1\<close> then and \<open>+1\<close> otherwise. (The
  specification normalises \<open>b0\<close> and \<open>b1\<close> first, which does not change the sign.)\<close>

definition vcross :: "Vec3 \<Rightarrow> Vec3 \<Rightarrow> Vec3" where
  "vcross a b = (vy a * vz b - vz a * vy b, vz a * vx b - vx a * vz b, vx a * vy b - vy a * vx b)"

definition vdot :: "Vec3 \<Rightarrow> Vec3 \<Rightarrow> real" where
  "vdot a b = vx a * vx b + vy a * vy b + vz a * vz b"

definition vscale :: "real \<Rightarrow> Vec3 \<Rightarrow> Vec3" where
  "vscale s v = (vx v * s, vy v * s, vz v * s)"

definition through :: "Matrix_3x3 \<Rightarrow> Vec3 \<Rightarrow> Vec3" where
  "through R a = (vx a * m0 R + vy a * m3 R + vz a * m6 R,
                  vx a * m1 R + vy a * m4 R + vz a * m7 R,
                  vx a * m2 R + vy a * m5 R + vz a * m8 R)"

definition eigenvector :: "Matrix_3x3 \<Rightarrow> nat \<Rightarrow> Vec3" where
  "eigenvector Evector k =
     (if k = 0 then (m0 Evector, m1 Evector, m2 Evector)
      else if k = 1 then (m3 Evector, m4 Evector, m5 Evector)
      else (m6 Evector, m7 Evector, m8 Evector))"

definition handedness :: "Matrix_3x3 \<Rightarrow> Vec3 \<Rightarrow> Vec3 \<Rightarrow> real" where
  "handedness R a0 a1 = vdot (vcross (through R a0) (through R a1)) (through R (vcross a0 a1))"

definition chirality_sign :: "Matrix_3x3 \<Rightarrow> Matrix_3x3 \<Rightarrow> real" where
  "chirality_sign R Evector =
     (if handedness R (eigenvector Evector 0) (eigenvector Evector 1) < 0 then - 1 else 1)"

text \<open>The determinant of a matrix.\<close>

definition det3 :: "Matrix_3x3 \<Rightarrow> real" where
  "det3 R = m0 R * (m4 R * m8 R - m5 R * m7 R) - m1 R * (m3 R * m8 R - m5 R * m6 R)
          + m2 R * (m3 R * m7 R - m4 R * m6 R)"

text \<open>This frame after the translation of its (weighted) centroid to the origin.\<close>

definition centered :: "Frame \<Rightarrow> bool \<Rightarrow> Frame" where
  "centered f useMass =
     f\<lparr>X := map_cells
              (shifted (Neg (centroid (weights f useMass) (frame_atoms f))) (nat (natom f)))
              (X f)\<rparr>"

text \<open>A frame after a translation by a vector that is not a number: the coordinates of its
  atoms are absent.\<close>

definition not_numbers :: "Frame \<Rightarrow> Frame" where
  "not_numbers f =
     (if natom f \<le> 0 then f
      else f\<lparr>X := NaNBuf (replicate (3 * nat (natom f)) None
                          @ map Some (drop (3 * nat (natom f)) (cells (X f))))\<rparr>)"

text \<open>The energy \<open>E = E0 - sqrt|ev0| - sqrt|ev1| - sig3 * sqrt|ev2|\<close> and the value returned
  for it.\<close>

definition fit_energy :: "real \<Rightarrow> Vec3 \<Rightarrow> real \<Rightarrow> real" where
  "fit_energy E0 Eigenvalue sig3 =
     (case Eigenvalue of (ev0, ev1, ev2) \<Rightarrow> E0 - sqrt \<bar>ev0\<bar> - sqrt \<bar>ev1\<bar> - sig3 * sqrt \<bar>ev2\<bar>)"

definition rmsd_of_energy :: "real \<Rightarrow> real \<Rightarrow> real" where
  "rmsd_of_energy E W = (if E < 0 then 0 else sqrt (2 * E / W))"

text \<open>Two atoms on the x axis with masses of 2, the same frame moved by \<open>(5, 5, 5)\<close>, the
  rotation matrix handed in by the caller, and stand-ins for the two absent matrix routines:
  the product of the transpose of one matrix with another, and a diagonalisation that is
  right for a diagonal matrix whose diagonal is already in descending order.\<close>

definition ex_pair :: Frame where
  "ex_pair = \<lparr>natom = 2, maxnatom = 2, ncoord = 6, T = 0, X = Buf [0, 0, 0, 1, 0, 0],
               V = Null, Mass = [2, 2], box = [0, 0, 0, 0, 0, 0]\<rparr>"

definition ex_pair_moved :: Frame where
  "ex_pair_moved = ex_pair\<lparr>X := Buf [5, 5, 5, 6, 5, 5]\<rparr>"

definition ex_pair_centered :: Frame where
  "ex_pair_centered = ex_pair\<lparr>X := Buf [- (1 / 2), 0, 0, 1 / 2, 0, 0]\<rparr>"

definition ex_weightless :: Frame where
  "ex_weightless = ex_pair\<lparr>Mass := [0, 0]\<rparr>"

definition ex_weightless_moved :: Frame where
  "ex_weightless_moved = ex_pair_moved\<lparr>Mass := [0, 0]\<rparr>"

text \<open>A frame without atoms and without storage.\<close>

definition ex_empty :: Frame where
  "ex_empty = \<lparr>natom = 0, maxnatom = 0, ncoord = 0, T = 0, X = Null,
                V = Null, Mass = [], box = [0, 0, 0, 0, 0, 0]\<rparr>"

definition ex_U :: "Matrix_3x3 option" where
  "ex_U = Some (Matrix_3x3 1 0 0 0 1 0 0 0 1)"

definition ex_TransposeMult :: "Matrix_3x3 \<Rightarrow> Matrix_3x3 \<Rightarrow> Matrix_3x3" where
  "ex_TransposeMult A B =
     Matrix_3x3
       (m0 A * m0 B + m3 A * m3 B + m6 A * m6 B) (m0 A * m1 B + m3 A * m4 B + m6 A * m7 B)
       (m0 A * m2 B + m3 A * m5 B + m6 A * m8 B)
       (m1 A * m0 B + m4 A * m3 B + m7 A * m6 B) (m1 A * m1 B + m4 A * m4 B + m7 A * m7 B)
       (m1 A * m2 B + m4 A * m5 B + m7 A * m8 B)
       (m2 A * m0 B + m5 A * m3 B + m8 A * m6 B) (m2 A * m1 B + m5 A * m4 B + m8 A * m7 B)
       (m2 A * m2 B + m5 A * m5 B + m8 A * m8 B)"

definition ex_Diagonalize_Sort :: "Matrix_3x3 \<Rightarrow> (Vec3 \<times> Matrix_3x3) option" where
  "ex_Diagonalize_Sort A = Some ((m0 A, m4 A, m8 A), Matrix_3x3 1 0 0 0 1 0 0 0 1)"

definition ex_Diagonalize_fails :: "Matrix_3x3 \<Rightarrow> (Vec3 \<times> Matrix_3x3) option" where
  "ex_Diagonalize_fails A = None"

text \<open>Four atoms at alternate corners of a cube, without masses, and their mirror image in
  the plane \<open>z = 0\<close>: no rotation takes the one to the other. And a diagonalisation whose
  first eigenvalue comes out too large by 3, as rounding may leave it.\<close>

definition ex_tetra :: Frame where
  "ex_tetra = \<lparr>natom = 4, maxnatom = 4, ncoord = 12, T = 0,
                X = Buf [1, 1, 1, 1, - 1, - 1, - 1, 1, - 1, - 1, - 1, 1],
                V = Null, Mass = [], box = [0, 0, 0, 0, 0, 0]\<rparr>"

definition ex_tetra_mirrored :: Frame where
  "ex_tetra_mirrored = ex_tetra\<lparr>X := Buf [1, 1, - 1, 1, - 1, 1, - 1, 1, 1, - 1, - 1, - 1]\<rparr>"

definition ex_Diagonalize_noisy :: "Matrix_3x3 \<Rightarrow> (Vec3 \<times> Matrix_3x3) option" where
  "ex_Diagonalize_noisy A = Some ((m0 A + 3, m4 A, m8 A), Matrix_3x3 1 0 0 0 1 0 0 0 1)"

subsection \<open>The distance RMSD, as the specification names it\<close>

definition dist3 :: "Vec3 \<Rightarrow> Vec3 \<Rightarrow> real" where
  "dist3 p q =
     sqrt ((vx p - vx q) * (vx p - vx q) + (vy p - vy q) * (vy p - vy q)
           + (vz p - vz q) * (vz p - vz q))"

text \<open>The distance between atoms \<open>i\<close> and \<open>j\<close> of one frame, the pairs \<open>i < j\<close> of \<open>N\<close>
  atoms, and the sum over them of the squared differences between the distances in two
  frames.\<close>

definition atom_dist :: "Frame \<Rightarrow> nat \<Rightarrow> nat \<Rightarrow> real" where
  "atom_dist f i j = dist3 (atom_xyz (cells (X f)) i) (atom_xyz (cells (X f)) j)"

definition atom_pairs :: "nat \<Rightarrow> (nat \<times> nat) list" where
  "atom_pairs N = concat (map (\<lambda>i. map (\<lambda>j. (i, j)) [Suc i..<N]) [0..<N])"

definition pair_sq_sum :: "Frame \<Rightarrow> Frame \<Rightarrow> nat \<Rightarrow> real" where
  "pair_sq_sum this Ref N =
     sum_list (map (\<lambda>(i, j). (atom_dist this i j - atom_dist Ref i j)\<^sup>2) (atom_pairs N))"

definition ex_single :: Frame where
  "ex_single = \<lparr>natom = 1, maxnatom = 1, ncoord = 3, T = 0, X = Buf [1, 2, 3],
                 V = Null, Mass = [], box = [0, 0, 0, 0, 0, 0]\<rparr>"

definition ex_many :: Frame where
  "ex_many = \<lparr>natom = 46341, maxnatom = 46341, ncoord = 139023, T = 0,
               X = Buf (replicate 139023 0),
               V = Null, Mass = [], box = [0, 0, 0, 0, 0, 0]\<rparr>"

text \<open>Three atoms on a line, one apart, and the same three atoms two apart.\<close>

definition ex_line1 :: Frame where
  "ex_line1 = \<lparr>natom = 3, maxnatom = 3, ncoord = 9, T = 0,
                X = Buf [0, 0, 0, 1, 0, 0, 2, 0, 0],
                V = Null, Mass = [], box = [0, 0, 0, 0, 0, 0]\<rparr>"

definition ex_line2 :: Frame where
  "ex_line2 = ex_line1\<lparr>X := Buf [0, 0, 0, 2, 0, 0, 4, 0, 0]\<rparr>"

section \<open>AddByMask\<close>

lemma take3_drop:
  "n + 3 \<le> length xs \<Longrightarrow> take 3 (drop n xs) = [xs ! n, xs ! (n + 1), xs ! (n + 2)]"
  by (simp add: take_Suc_conv_app_nth numeral_3_eq_3 add.commute)

lemma update3:
  "n + 3 \<le> length xs \<Longrightarrow>
   xs[n := a, n + 1 := b, n + 2 := c] = take n xs @ [a, b, c] @ drop (n + 3) xs"
  by (rule nth_equalityI) (auto simp: nth_append nth_list_update less_Suc_eq numeral_3_eq_3 nth_Cons' intro!: arg_cong[where f="nth xs"])

lemma add_assign_Buf:
  "0 \<le> i \<Longrightarrow> i < int (length xs) \<Longrightarrow> 0 \<le> j \<Longrightarrow> j < int (length ys) \<Longrightarrow>
   add_assign (Buf xs) i (Buf ys) j = Inr (Buf (xs[nat i := xs ! nat i + ys ! nat j]))"
  by (simp add: add_assign_def and_then_def rd_def wr_def)

lemma add3_Buf:
  assumes "ofs + 3 \<le> length xs" and "0 \<le> j" and "j + 3 \<le> int (length ys)"
  shows "and_then (add_assign (Buf xs) (int ofs) (Buf ys) j) (\<lambda>X1.
         and_then (add_assign X1 (int ofs + 1) (Buf ys) (j + 1)) (\<lambda>X2.
         and_then (add_assign X2 (int ofs + 2) (Buf ys) (j + 2)) k))
       = k (Buf (take ofs xs @ map2 (+) (take 3 (drop ofs xs)) (take 3 (drop (nat j) ys))
                 @ drop (ofs + 3) xs))"
proof -
  let ?a = "xs ! ofs + ys ! nat j"
  let ?b = "xs ! (ofs + 1) + ys ! (nat j + 1)"
  let ?c = "xs ! (ofs + 2) + ys ! (nat j + 2)"
  have n: "nat (int ofs + 1) = ofs + 1" "nat (int ofs + 2) = ofs + 2"
          "nat (j + 1) = nat j + 1" "nat (j + 2) = nat j + 2"
    using assms by auto
  have 1: "add_assign (Buf xs) (int ofs) (Buf ys) j = Inr (Buf (xs[ofs := ?a]))"
    using assms by (simp add: add_assign_Buf)
  have 2: "add_assign (Buf (xs[ofs := ?a])) (int ofs + 1) (Buf ys) (j + 1)
             = Inr (Buf (xs[ofs := ?a, ofs + 1 := ?b]))"
    using assms by (simp add: add_assign_Buf n)
  have 3: "add_assign (Buf (xs[ofs := ?a, ofs + 1 := ?b])) (int ofs + 2) (Buf ys) (j + 2)
             = Inr (Buf (xs[ofs := ?a, ofs + 1 := ?b, ofs + 2 := ?c]))"
    using assms by (simp add: add_assign_Buf n)
  have j3: "nat j + 3 \<le> length ys" using assms by linarith
  have u: "xs[ofs := ?a, ofs + 1 := ?b, ofs + 2 := ?c]
         = take ofs xs @ map2 (+) (take 3 (drop ofs xs)) (take 3 (drop (nat j) ys))
           @ drop (ofs + 3) xs"
    using assms(1) j3 by (simp only: update3 take3_drop) simp
  show ?thesis
    by (simp only: 1 2 3 and_then_def sum.case u)
qed

lemma AddByMask_loop_Buf:
  assumes "\<forall>a\<in>set ms. 0 \<le> a \<and> a * 3 + 3 \<le> int (length ys)"
      and "ofs + 3 * length ms \<le> length xs"
  shows "AddByMask_loop (Buf xs) (int ofs) (Buf ys) ms
       = Inr (Buf (take ofs xs
                   @ map2 (+) (take (3 * length ms) (drop ofs xs)) (selected ys ms)
                   @ drop (ofs + 3 * length ms) xs))"
  using assms
proof (induction ms arbitrary: xs ofs)
  case Nil
  then show ?case by (simp add: selected_def)
next
  case (Cons a ms)
  let ?s = "map2 (+) (take 3 (drop ofs xs)) (take 3 (drop (nat (a * 3)) ys))"
  let ?xs1 = "take ofs xs @ ?s @ drop (ofs + 3) xs"
  have a: "0 \<le> a * 3" "a * 3 + 3 \<le> int (length ys)" and o: "ofs + 3 \<le> length xs"
    using Cons.prems by auto
  have ls: "length ?s = 3" using a o by simp
  have len: "length ?xs1 = length xs" using o ls by simp
  have step: "AddByMask_loop (Buf xs) (int ofs) (Buf ys) (a # ms)
            = AddByMask_loop (Buf ?xs1) (int (ofs + 3)) (Buf ys) ms"
    using add3_Buf[OF o a, where k = "\<lambda>X3. AddByMask_loop X3 (int ofs + 3) (Buf ys) ms"]
    by (simp add: Let_def add.commute)
  have ih: "AddByMask_loop (Buf ?xs1) (int (ofs + 3)) (Buf ys) ms
          = Inr (Buf (take (ofs + 3) ?xs1
                   @ map2 (+) (take (3 * length ms) (drop (ofs + 3) ?xs1)) (selected ys ms)
                   @ drop (ofs + 3 + 3 * length ms) ?xs1))"
    using Cons.prems len by (intro Cons.IH) auto
  have t: "take (ofs + 3) ?xs1 = take ofs xs @ ?s" using o ls by simp
  have d: "drop (ofs + 3) ?xs1 = drop (ofs + 3) xs" using o ls by simp
  have d2: "drop (ofs + 3 + 3 * length ms) ?xs1 = drop (ofs + 3 + 3 * length ms) xs"
    using d by (metis drop_drop add.commute)
  have sp: "take (3 * length (a # ms)) (drop ofs xs)
          = take 3 (drop ofs xs) @ take (3 * length ms) (drop (ofs + 3) xs)"
    by (simp add: take_add add.commute)
  have sel: "selected ys (a # ms) = take 3 (drop (nat (a * 3)) ys) @ selected ys ms"
    by (simp add: selected_def crd_def)
  have l3: "length (take 3 (drop ofs xs)) = length (take 3 (drop (nat (a * 3)) ys))"
    using a o by simp
  show ?case
    unfolding step ih t d d2 sp sel
    using l3 by (simp add: add.assoc add.commute)
qed

lemma selects_in_cells:
  assumes "wf_Frame f" and "selects maskIn f"
  shows "\<forall>a\<in>set maskIn. 0 \<le> a \<and> a * 3 + 3 \<le> int (length (cells (X f)))"
proof
  fix a assume "a \<in> set maskIn"
  then have a: "0 \<le> a" "a < natom f"
    using assms(2) by (auto simp: selects_def list_all_iff)
  then have "0 < maxnatom f" using assms(1) by (simp add: wf_Frame_def)
  then obtain cs where "X f = Buf cs" "int (length cs) = maxnatom f * 3"
    using assms(1) by (auto simp: wf_Frame_def allocated_def split: buffer.splits)
  then show "0 \<le> a \<and> a * 3 + 3 \<le> int (length (cells (X f)))"
    using a assms(1) by (simp add: cells_def wf_Frame_def)
qed

text \<open>
  C10. For a mask of at most \<open>maxnatom_\<close> atoms (a mask over the source frame),
  \<open>AddByMask\<close> returns this frame with only \<open>X_\<close> changed: the first \<open>3 * Nselected\<close> cells,
  that is the atoms \<open>0, 1, 2, ...\<close> up to the size of the mask, have the source's selected
  atoms added in mask order, and every later cell is as before. \<open>natom_\<close>, \<open>ncoord_\<close>,
  \<open>maxnatom_\<close>, the box, the temperature, the masses and the velocities are those of the
  frame passed in; \<open>natom_\<close> is not set to the size of the mask. The source is a
  \<open>const&\<close> argument, a different object, and is not written.
\<close>

theorem AddByMask_effect:
  assumes "allocated this" and "Nselected maskIn \<le> maxnatom this"
      and "wf_Frame frameIn" and "selects maskIn frameIn"
  shows "AddByMask this frameIn maskIn =
           Inr (this\<lparr>X := map_cells
                  (\<lambda>cs. map2 (+) (take (3 * length maskIn) cs) (selected (cells (X frameIn)) maskIn)
                        @ drop (3 * length maskIn) cs)
                  (X this)\<rparr>)"
proof (cases maskIn)
  case Nil
  then show ?thesis
    using assms(2)
    by (cases "X this") (simp_all add: AddByMask_def Nselected_def and_then_def map_cells_def selected_def)
next
  case (Cons a rest)
  have rng: "\<forall>a\<in>set maskIn. 0 \<le> a \<and> a * 3 + 3 \<le> int (length (cells (X frameIn)))"
    using selects_in_cells[OF assms(3,4)] .
  then have "0 < length (cells (X frameIn))" using Cons by auto
  then obtain ys where ys: "X frameIn = Buf ys"
    by (cases "X frameIn") (simp_all add: cells_def)
  have "0 < maxnatom this" using assms(2) Cons by (simp add: Nselected_def)
  then obtain xs where xs: "X this = Buf xs" "int (length xs) = maxnatom this * 3"
    using assms(1) by (auto simp: allocated_def split: buffer.splits)
  have fits: "0 + 3 * length maskIn \<le> length xs"
    using assms(2) xs(2) by (simp add: Nselected_def)
  have "AddByMask_loop (Buf xs) (int 0) (Buf ys) maskIn
      = Inr (Buf (take 0 xs
                   @ map2 (+) (take (3 * length maskIn) (drop 0 xs)) (selected ys maskIn)
                   @ drop (0 + 3 * length maskIn) xs))"
    using rng ys by (intro AddByMask_loop_Buf fits) (simp add: cells_def)
  then show ?thesis
    using assms(2) xs ys by (simp add: AddByMask_def and_then_def map_cells_def cells_def)
qed

theorem AddByMask_effect_witness:
  "allocated ex_this \<and> Nselected [2] \<le> maxnatom ex_this \<and> wf_Frame ex_src \<and> selects [2] ex_src
   \<and> AddByMask ex_this ex_src [2] = Inr (ex_this\<lparr>X := Buf [71, 82, 93, 4, 5, 6]\<rparr>)"
proof -
  have h: "allocated ex_this" "Nselected [2] \<le> maxnatom ex_this" "wf_Frame ex_src" "selects [2] ex_src"
    by (simp_all add: allocated_def wf_Frame_def selects_def Nselected_def ex_this_def ex_src_def)
  show ?thesis
    using h AddByMask_effect[OF h]
    by (simp add: map_cells_def cells_def selected_def crd_def ex_this_def ex_src_def)
qed

section \<open>The constructor from a frame and a mask\<close>

lemma memcpy_Buf:
  assumes "ofs + 3 \<le> length xs" and "0 \<le> a" and "a * 3 + 3 \<le> int (length ys)"
  shows "memcpy (Buf xs) (int ofs) (Buf ys) (a * 3) 3
       = Inr (Buf (take ofs xs @ crd ys a @ drop (ofs + 3) xs))"
  using assms by (simp add: memcpy_def crd_def)

lemma copy_step:
  assumes "ofs + 3 + k \<le> length xs" and "length c = 3"
  shows "take (ofs + 3) (take ofs xs @ c @ drop (ofs + 3) xs) = take ofs xs @ c"
    and "drop (ofs + 3 + k) (take ofs xs @ c @ drop (ofs + 3) xs) = drop (ofs + 3 + k) xs"
    and "length (take ofs xs @ c @ drop (ofs + 3) xs) = length xs"
  using assms by (simp_all add: add.commute)

lemma length_crd: "0 \<le> a \<Longrightarrow> a * 3 + 3 \<le> int (length ys) \<Longrightarrow> length (crd ys a) = 3"
  by (simp add: crd_def)

lemma selected_Cons: "selected ys (a # ms) = crd ys a @ selected ys ms"
  by (simp add: selected_def)

lemma length_selected:
  "\<forall>a\<in>set ms. 0 \<le> a \<and> a * 3 + 3 \<le> int (length ys) \<Longrightarrow> length (selected ys ms) = 3 * length ms"
  by (induction ms) (simp_all add: selected_def length_crd)

lemma copy_crd_Buf:
  assumes "\<forall>a\<in>set ms. 0 \<le> a \<and> a * 3 + 3 \<le> int (length ys)"
      and "ofs + 3 * length ms \<le> length xs"
  shows "copy_crd (Buf ys) ms (int ofs) (Buf xs)
       = Inr (Buf (take ofs xs @ selected ys ms @ drop (ofs + 3 * length ms) xs))"
  using assms
proof (induction ms arbitrary: xs ofs)
  case Nil
  then show ?case by (simp add: selected_def)
next
  case (Cons a ms)
  let ?xs1 = "take ofs xs @ crd ys a @ drop (ofs + 3) xs"
  have a: "0 \<le> a" "a * 3 + 3 \<le> int (length ys)" and o: "ofs + 3 + 3 * length ms \<le> length xs"
    using Cons.prems by auto
  have c: "length (crd ys a) = 3" using a by (rule length_crd)
  have step: "copy_crd (Buf ys) (a # ms) (int ofs) (Buf xs)
            = copy_crd (Buf ys) ms (int (ofs + 3)) (Buf ?xs1)"
    using memcpy_Buf[of ofs xs a ys] a o by (simp add: and_then_def)
  have ih: "copy_crd (Buf ys) ms (int (ofs + 3)) (Buf ?xs1)
          = Inr (Buf (take (ofs + 3) ?xs1 @ selected ys ms @ drop (ofs + 3 + 3 * length ms) ?xs1))"
    using Cons.prems copy_step(3)[OF o c] by (intro Cons.IH) auto
  show ?case
    unfolding step ih copy_step(1)[OF o c] copy_step(2)[OF o c] selected_Cons
    by (simp add: add.assoc)
qed

lemma copy_crd_mass_Buf:
  assumes "\<forall>a\<in>set ms. 0 \<le> a \<and> a * 3 + 3 \<le> int (length (cells (X f))) \<and> a < int (length (Mass f))"
      and "ofs + 3 * length ms \<le> length xs" and "ms \<noteq> [] \<longrightarrow> X f = Buf ys"
  shows "copy_crd_mass f ms (int ofs) (Buf xs) mass
       = Inr (Buf (take ofs xs @ selected (cells (X f)) ms @ drop (ofs + 3 * length ms) xs),
              mass @ map (\<lambda>a. Mass f ! nat a) ms)"
  using assms
proof (induction ms arbitrary: xs ofs mass)
  case Nil
  then show ?case by (simp add: selected_def)
next
  case (Cons a ms)
  have X: "X f = Buf ys" "cells (X f) = ys" using Cons.prems(3) by (simp_all add: cells_def)
  let ?xs1 = "take ofs xs @ crd ys a @ drop (ofs + 3) xs"
  have a: "0 \<le> a" "a * 3 + 3 \<le> int (length ys)" "a < int (length (Mass f))"
    and o: "ofs + 3 + 3 * length ms \<le> length xs"
    using Cons.prems X by auto
  have c: "length (crd ys a) = 3" using a by (intro length_crd)
  have step: "copy_crd_mass f (a # ms) (int ofs) (Buf xs) mass
            = copy_crd_mass f ms (int (ofs + 3)) (Buf ?xs1) (mass @ [Mass f ! nat a])"
    using memcpy_Buf[of ofs xs a ys] a o by (simp add: and_then_def X vec_at_def)
  have ih: "copy_crd_mass f ms (int (ofs + 3)) (Buf ?xs1) (mass @ [Mass f ! nat a])
          = Inr (Buf (take (ofs + 3) ?xs1 @ selected (cells (X f)) ms
                      @ drop (ofs + 3 + 3 * length ms) ?xs1),
                 (mass @ [Mass f ! nat a]) @ map (\<lambda>a. Mass f ! nat a) ms)"
    using Cons.prems copy_step(3)[OF o c] X by (intro Cons.IH) auto
  show ?case
    unfolding step ih copy_step(1)[OF o c] copy_step(2)[OF o c] selected_Cons X
    by (simp add: add.assoc cells_def)
qed

lemma copy_crd_mass_velo_Buf:
  assumes "\<forall>a\<in>set ms. 0 \<le> a \<and> a * 3 + 3 \<le> int (length (cells (X f)))
              \<and> a * 3 + 3 \<le> int (length (cells (V f))) \<and> a < int (length (Mass f))"
      and "ofs + 3 * length ms \<le> length xs" and "ofs + 3 * length ms \<le> length vs"
      and "ms \<noteq> [] \<longrightarrow> X f = Buf ys \<and> V f = Buf ws"
  shows "copy_crd_mass_velo f ms (int ofs) (Buf xs) (Buf vs) mass
       = Inr (Buf (take ofs xs @ selected (cells (X f)) ms @ drop (ofs + 3 * length ms) xs),
              Buf (take ofs vs @ selected (cells (V f)) ms @ drop (ofs + 3 * length ms) vs),
              mass @ map (\<lambda>a. Mass f ! nat a) ms)"
  using assms
proof (induction ms arbitrary: xs vs ofs mass)
  case Nil
  then show ?case by (simp add: selected_def)
next
  case (Cons a ms)
  have X: "X f = Buf ys" "cells (X f) = ys" "V f = Buf ws" "cells (V f) = ws"
    using Cons.prems(4) by (simp_all add: cells_def)
  let ?xs1 = "take ofs xs @ crd ys a @ drop (ofs + 3) xs"
  let ?vs1 = "take ofs vs @ crd ws a @ drop (ofs + 3) vs"
  have a: "0 \<le> a" "a * 3 + 3 \<le> int (length ys)" "a * 3 + 3 \<le> int (length ws)"
          "a < int (length (Mass f))"
    and o: "ofs + 3 + 3 * length ms \<le> length xs" and ov: "ofs + 3 + 3 * length ms \<le> length vs"
    using Cons.prems X by auto
  have c: "length (crd ys a) = 3" and cv: "length (crd ws a) = 3"
    using a by (simp_all add: length_crd)
  have step: "copy_crd_mass_velo f (a # ms) (int ofs) (Buf xs) (Buf vs) mass
            = copy_crd_mass_velo f ms (int (ofs + 3)) (Buf ?xs1) (Buf ?vs1) (mass @ [Mass f ! nat a])"
    using memcpy_Buf[of ofs xs a ys] memcpy_Buf[of ofs vs a ws] a o ov
    by (simp add: and_then_def X vec_at_def Let_def)
  have ih: "copy_crd_mass_velo f ms (int (ofs + 3)) (Buf ?xs1) (Buf ?vs1) (mass @ [Mass f ! nat a])
          = Inr (Buf (take (ofs + 3) ?xs1 @ selected (cells (X f)) ms
                      @ drop (ofs + 3 + 3 * length ms) ?xs1),
                 Buf (take (ofs + 3) ?vs1 @ selected (cells (V f)) ms
                      @ drop (ofs + 3 + 3 * length ms) ?vs1),
                 (mass @ [Mass f ! nat a]) @ map (\<lambda>a. Mass f ! nat a) ms)"
    using Cons.prems copy_step(3)[OF o c] copy_step(3)[OF ov cv] X by (intro Cons.IH) auto
  show ?case
    unfolding step ih copy_step(1)[OF o c] copy_step(2)[OF o c]
              copy_step(1)[OF ov cv] copy_step(2)[OF ov cv] selected_Cons X
    by (simp add: add.assoc cells_def)
qed


lemma selects_in_frame:
  assumes "wf_Frame f" and "selects maskIn f" and "maskIn \<noteq> []"
  shows "\<exists>ys. X f = Buf ys \<and> int (length ys) = maxnatom f * 3"
    and "\<forall>a\<in>set maskIn. 0 \<le> a \<and> a < natom f"
proof -
  show 2: "\<forall>a\<in>set maskIn. 0 \<le> a \<and> a < natom f"
    using assms(2) by (simp add: selects_def list_all_iff)
  obtain a where "a \<in> set maskIn" using assms(3) by (cases maskIn) auto
  then have "0 < maxnatom f" using 2 assms(1) by (fastforce simp: wf_Frame_def)
  then show "\<exists>ys. X f = Buf ys \<and> int (length ys) = maxnatom f * 3"
    using assms(1) by (auto simp: wf_Frame_def allocated_def split: buffer.splits)
qed

text \<open>
  C4, as amended. For a well-formed source frame and a mask over it, the constructor yields
  a frame of \<open>Nselected\<close> atoms (\<open>natom_ = maxnatom_ = Nselected\<close>, \<open>ncoord_\<close> three times that)
  whose coordinates are the selected atoms of the source in mask order, with the temperature
  and the box of the source. For a non-empty mask it copies the masses iff the source has
  masses, and the velocities iff the source has both masses and velocities: the velocities of
  a source without masses are not copied. For an empty mask the new frame has no coordinate,
  velocity or mass storage.
\<close>

theorem Frame_by_mask_result:
  assumes "wf_Frame frameIn" and "selects maskIn frameIn"
      and "masses_ok frameIn" and "velocities_ok frameIn"
  shows "Frame_by_mask frameIn maskIn =
           Inr \<lparr>natom = Nselected maskIn, maxnatom = Nselected maskIn,
                ncoord = Nselected maskIn * 3, T = T frameIn,
                X = (if maskIn = [] then Null else Buf (selected (cells (X frameIn)) maskIn)),
                V = (if maskIn \<noteq> [] \<and> Mass frameIn \<noteq> [] \<and> V frameIn \<noteq> Null
                     then Buf (selected (cells (V frameIn)) maskIn) else Null),
                Mass = (if maskIn \<noteq> [] \<and> Mass frameIn \<noteq> []
                        then map (\<lambda>a. Mass frameIn ! nat a) maskIn else []),
                box = box frameIn\<rparr>"
proof (cases "maskIn = []")
  case True
  then show ?thesis by (simp add: Frame_by_mask_def Nselected_def and_then_def)
next
  case False
  let ?n = "length maskIn"
  let ?new = "replicate (3 * ?n) (undefined :: real)"
  obtain ys where ys: "X frameIn = Buf ys" "int (length ys) = maxnatom frameIn * 3"
    using selects_in_frame(1)[OF assms(1,2) False] by blast
  have sel: "\<forall>a\<in>set maskIn. 0 \<le> a \<and> a < natom frameIn"
    using selects_in_frame(2)[OF assms(1,2) False] .
  have cap: "natom frameIn \<le> maxnatom frameIn" using assms(1) by (simp add: wf_Frame_def)
  have inX: "\<forall>a\<in>set maskIn. 0 \<le> a \<and> a * 3 + 3 \<le> int (length ys)"
    using sel cap ys(2) by fastforce
  have nw: "new_double (Nselected maskIn * 3) = Buf ?new"
    by (simp add: new_double_def Nselected_def nat_mult_distrib mult.commute)
  have pos: "Nselected maskIn * 3 > 0" using False by (simp add: Nselected_def)
  have fits: "0 + 3 * ?n \<le> length ?new" by simp
  have fin: "\<And>zs. length zs = 3 * ?n \<Longrightarrow> take 0 ?new @ zs @ drop (0 + 3 * ?n) ?new = zs"
    by simp
  show ?thesis
  proof (cases "Mass frameIn = []")
    case True
    have "copy_crd (Buf ys) maskIn (int 0) (Buf ?new)
        = Inr (Buf (take 0 ?new @ selected ys maskIn @ drop (0 + 3 * ?n) ?new))"
      using inX fits by (rule copy_crd_Buf)
    then have "copy_crd (X frameIn) maskIn 0 (new_double (Nselected maskIn * 3))
             = Inr (Buf (selected ys maskIn))"
      using length_selected[OF inX] by (simp add: ys nw)
    then show ?thesis
      using True False pos by (simp add: Frame_by_mask_def Let_def and_then_def ys cells_def)
  next
    case M: False
    then have inM: "\<forall>a\<in>set maskIn. a < int (length (Mass frameIn))"
      using sel assms(3) by (fastforce simp: masses_ok_def)
    show ?thesis
    proof (cases "V frameIn = Null")
      case True
      have "copy_crd_mass frameIn maskIn (int 0) (Buf ?new) []
          = Inr (Buf (take 0 ?new @ selected (cells (X frameIn)) maskIn @ drop (0 + 3 * ?n) ?new),
                 [] @ map (\<lambda>a. Mass frameIn ! nat a) maskIn)"
        using inX inM fits ys by (intro copy_crd_mass_Buf) (auto simp: cells_def)
      then have "copy_crd_mass frameIn maskIn 0 (new_double (Nselected maskIn * 3)) []
               = Inr (Buf (selected ys maskIn), map (\<lambda>a. Mass frameIn ! nat a) maskIn)"
        using length_selected[OF inX] by (simp add: ys nw cells_def)
      then show ?thesis
        using True M False pos by (simp add: Frame_by_mask_def Let_def and_then_def ys cells_def)
    next
      case Vn: False
      then obtain ws where ws: "V frameIn = Buf ws" "int (length ws) = maxnatom frameIn * 3"
        using assms(4) by (auto simp: velocities_ok_def split: buffer.splits)
      have inV: "\<forall>a\<in>set maskIn. 0 \<le> a \<and> a * 3 + 3 \<le> int (length ws)"
        using sel cap ws(2) by fastforce
      have "copy_crd_mass_velo frameIn maskIn (int 0) (Buf ?new) (Buf ?new) []
          = Inr (Buf (take 0 ?new @ selected (cells (X frameIn)) maskIn @ drop (0 + 3 * ?n) ?new),
                 Buf (take 0 ?new @ selected (cells (V frameIn)) maskIn @ drop (0 + 3 * ?n) ?new),
                 [] @ map (\<lambda>a. Mass frameIn ! nat a) maskIn)"
        using inX inV inM fits ys ws by (intro copy_crd_mass_velo_Buf) (auto simp: cells_def)
      then have "copy_crd_mass_velo frameIn maskIn 0 (new_double (Nselected maskIn * 3))
                   (new_double (Nselected maskIn * 3)) []
               = Inr (Buf (selected ys maskIn), Buf (selected ws maskIn),
                      map (\<lambda>a. Mass frameIn ! nat a) maskIn)"
        using length_selected[OF inX] length_selected[OF inV] by (simp add: ys ws nw cells_def)
      then show ?thesis
        using Vn M False pos
        by (simp add: Frame_by_mask_def Let_def and_then_def ys ws cells_def)
    qed
  qed
qed

theorem Frame_by_mask_result_witness:
  "wf_Frame ex_velo \<and> selects [1] ex_velo \<and> masses_ok ex_velo \<and> velocities_ok ex_velo
   \<and> Frame_by_mask ex_velo [1] =
       Inr \<lparr>natom = 1, maxnatom = 1, ncoord = 3, T = 300, X = Buf [4, 5, 6],
            V = Buf [10, 11, 12], Mass = [16], box = [30, 30, 30, 90, 90, 90]\<rparr>"
proof -
  have h: "wf_Frame ex_velo" "selects [1] ex_velo" "masses_ok ex_velo" "velocities_ok ex_velo"
    by (simp_all add: wf_Frame_def allocated_def selects_def masses_ok_def velocities_ok_def
                      ex_velo_def)
  show ?thesis
    using h Frame_by_mask_result[OF h]
    by (simp add: Nselected_def cells_def selected_def crd_def ex_velo_def)
qed

text \<open>
  C4 as stated fails: "copies velocity data iff F has velocities". The source frames below
  have velocities (\<open>V_\<close> is not \<open>NULL\<close>), yet the new frame has none: once for a frame
  with masses and the empty mask, once for a frame without masses and the mask of atom 0.
\<close>

theorem Frame_by_mask_velocity_counterexample:
  "V ex_velo \<noteq> Null
   \<and> Frame_by_mask ex_velo [] =
       Inr \<lparr>natom = 0, maxnatom = 0, ncoord = 0, T = 300, X = Null,
            V = Null, Mass = [], box = [30, 30, 30, 90, 90, 90]\<rparr>
   \<and> V ex_velo_nomass \<noteq> Null
   \<and> Frame_by_mask ex_velo_nomass [0] =
       Inr \<lparr>natom = 1, maxnatom = 1, ncoord = 3, T = 300, X = Buf [1, 2, 3],
            V = Null, Mass = [], box = [30, 30, 30, 90, 90, 90]\<rparr>"
  by (simp add: Frame_by_mask_def Nselected_def and_then_def Let_def new_double_def memcpy_def
                ex_velo_nomass_def ex_velo_def)

section \<open>SetReferenceByMap and SetTargetByMap\<close>

lemma SetTargetByMap_loop_copy:
  "SetTargetByMap_loop Xp newX tgtX mapIn
   = and_then (copy_crd tgtX (mapped_entries mapIn) newX Xp)
       (\<lambda>X'. Inr (X', newX + 3 * int (length (mapped_entries mapIn))))"
  by (induction mapIn arbitrary: Xp newX)
     (auto simp: mapped_entries_def and_then_def split: sum.splits)

lemma SetReferenceByMap_loop_copy:
  "SetReferenceByMap_loop Xp newX refX (int k * 3) mapIn
   = and_then (copy_crd refX (mapped_positions k mapIn) newX Xp)
       (\<lambda>X'. Inr (X', newX + 3 * int (length (mapped_positions k mapIn))))"
proof (induction mapIn arbitrary: Xp newX k)
  case Nil
  show ?case by (simp add: mapped_positions_def and_then_def)
next
  case (Cons e rest)
  have nxt: "int k * 3 + 3 = int (Suc k) * 3" by simp
  show ?case
    unfolding SetReferenceByMap_loop.simps nxt Cons.IH
    by (auto simp: mapped_positions_def and_then_def split: sum.splits)
qed

lemma length_mapped_positions:
  "length (mapped_positions k mapIn) = length (mapped_entries mapIn)"
  by (induction mapIn arbitrary: k) (simp_all add: mapped_positions_def mapped_entries_def)

lemma set_mapped_positions:
  "set (mapped_positions k mapIn) \<subseteq> {int k ..< int (k + length mapIn)}"
  by (auto simp: mapped_positions_def in_set_enumerate_eq)

lemma sdiv_3 [simp]: "(3 * int n) sdiv 3 = int n"
  by (auto simp: signed_divide_int_def sgn_mult)

lemma SetByMap_both:
  assumes "allocated this" and "wf_Frame src" and "natom src \<le> maxnatom this"
      and "int (length mapIn) = natom src"
  shows "SetReferenceByMap this src mapIn =
           Inr (this\<lparr>X := map_cells
                         (\<lambda>cs. selected (cells (X src)) (mapped_positions 0 mapIn)
                               @ drop (3 * length (mapped_entries mapIn)) cs) (X this),
                     ncoord := 3 * int (length (mapped_entries mapIn)),
                     natom := int (length (mapped_entries mapIn))\<rparr>)"
    and "maps_into mapIn src \<Longrightarrow>
         SetTargetByMap this src mapIn =
           Inr (this\<lparr>X := map_cells
                         (\<lambda>cs. selected (cells (X src)) (mapped_entries mapIn)
                               @ drop (3 * length (mapped_entries mapIn)) cs) (X this),
                     ncoord := 3 * int (length (mapped_entries mapIn)),
                     natom := int (length (mapped_entries mapIn))\<rparr>)"
proof -
  let ?k = "length (mapped_entries mapIn)"
  have guards: "\<not> natom src > maxnatom this" "\<not> int (length mapIn) \<noteq> natom src"
    using assms(3,4) by simp_all
  have "?k \<le> length mapIn"
    unfolding mapped_entries_def by (rule length_filter_le)
  then have kle: "int ?k \<le> natom src"
    using assms(4) by linarith
  have cap: "natom src \<le> maxnatom src" "0 \<le> natom src"
    using assms(2) by (simp_all add: wf_Frame_def)
  have copy: "copy_crd (X src) ms 0 (X this)
            = Inr (map_cells (\<lambda>cs. selected (cells (X src)) ms @ drop (3 * length ms) cs) (X this))"
    if ms: "\<forall>a\<in>set ms. 0 \<le> a \<and> a < natom src" and len: "length ms = ?k"
    for ms
  proof (cases "ms = []")
    case True
    then show ?thesis by (cases "X this") (simp_all add: map_cells_def selected_def)
  next
    case False
    then obtain a where a: "a \<in> set ms" by (cases ms) auto
    then have "0 < natom src" using ms by fastforce
    then have "0 < maxnatom src" "0 < maxnatom this" using cap assms(3) by simp_all
    then obtain ys xs where ys: "X src = Buf ys" "int (length ys) = maxnatom src * 3"
      and xs: "X this = Buf xs" "int (length xs) = maxnatom this * 3"
      using assms(1,2) by (auto simp: wf_Frame_def allocated_def split: buffer.splits)
    have inX: "\<forall>a\<in>set ms. 0 \<le> a \<and> a * 3 + 3 \<le> int (length ys)"
      using ms cap ys(2) by fastforce
    have fits: "0 + 3 * length ms \<le> length xs"
      using len kle assms(3) xs(2) by linarith
    have "copy_crd (Buf ys) ms (int 0) (Buf xs)
        = Inr (Buf (take 0 xs @ selected ys ms @ drop (0 + 3 * length ms) xs))"
      using inX fits by (rule copy_crd_Buf)
    then show ?thesis by (simp add: xs ys map_cells_def cells_def)
  qed
  have pos: "\<forall>a\<in>set (mapped_positions 0 mapIn). 0 \<le> a \<and> a < natom src"
    using set_mapped_positions[of 0 mapIn] assms(4) by auto
  have "SetReferenceByMap_loop (X this) 0 (X src) (int 0 * 3) mapIn
      = Inr (map_cells (\<lambda>cs. selected (cells (X src)) (mapped_positions 0 mapIn)
                              @ drop (3 * ?k) cs) (X this), 3 * int ?k)"
    unfolding SetReferenceByMap_loop_copy
    using copy[OF pos length_mapped_positions]
    by (simp add: and_then_def length_mapped_positions)
  then show "SetReferenceByMap this src mapIn =
           Inr (this\<lparr>X := map_cells
                         (\<lambda>cs. selected (cells (X src)) (mapped_positions 0 mapIn)
                               @ drop (3 * ?k) cs) (X this),
                     ncoord := 3 * int ?k, natom := int ?k\<rparr>)"
    using guards by (simp add: SetReferenceByMap_def and_then_def)
  assume into: "maps_into mapIn src"
  have ent: "\<forall>a\<in>set (mapped_entries mapIn). 0 \<le> a \<and> a < natom src"
    using into by (auto simp: maps_into_def mapped_entries_def list_all_iff)
  have "SetTargetByMap_loop (X this) 0 (X src) mapIn
      = Inr (map_cells (\<lambda>cs. selected (cells (X src)) (mapped_entries mapIn)
                              @ drop (3 * ?k) cs) (X this), 3 * int ?k)"
    unfolding SetTargetByMap_loop_copy
    using copy[OF ent refl] by (simp add: and_then_def)
  then show "SetTargetByMap this src mapIn =
           Inr (this\<lparr>X := map_cells
                         (\<lambda>cs. selected (cells (X src)) (mapped_entries mapIn)
                               @ drop (3 * ?k) cs) (X this),
                     ncoord := 3 * int ?k, natom := int ?k\<rparr>)"
    using guards by (simp add: SetTargetByMap_def and_then_def)
qed

text \<open>
  C5. For a well-formed source frame of at most \<open>maxnatom_\<close> atoms and a map of as many
  entries as the source has atoms, both functions leave \<open>natom_\<close> at the number of entries
  that are not \<open>-1\<close> (and \<open>ncoord_\<close> at three times that). \<open>SetReferenceByMap\<close> writes, into
  consecutive atom slots from 0, the source atoms at the positions \<open>i\<close> of the map with
  \<open>map[i] \<noteq> -1\<close>: its read pointer advances with every entry. \<open>SetTargetByMap\<close> (for a
  map into the source frame) writes the source atoms \<open>map[i]\<close> for the entries that are not
  \<open>-1\<close>. The cells after the written slots, and all other members, are unchanged.
\<close>

theorem SetByMap_asymmetry:
  assumes "allocated this" and "wf_Frame src" and "natom src \<le> maxnatom this"
      and "int (length mapIn) = natom src"
  shows "SetReferenceByMap this src mapIn =
           Inr (this\<lparr>X := map_cells
                         (\<lambda>cs. selected (cells (X src)) (mapped_positions 0 mapIn)
                               @ drop (3 * length (mapped_entries mapIn)) cs) (X this),
                     ncoord := 3 * int (length (mapped_entries mapIn)),
                     natom := int (length (mapped_entries mapIn))\<rparr>)
       \<and> (maps_into mapIn src \<longrightarrow>
          SetTargetByMap this src mapIn =
           Inr (this\<lparr>X := map_cells
                         (\<lambda>cs. selected (cells (X src)) (mapped_entries mapIn)
                               @ drop (3 * length (mapped_entries mapIn)) cs) (X this),
                     ncoord := 3 * int (length (mapped_entries mapIn)),
                     natom := int (length (mapped_entries mapIn))\<rparr>))"
  using SetByMap_both[OF assms] by blast

theorem SetByMap_asymmetry_witness:
  "allocated ex_dst \<and> wf_Frame ex_src \<and> natom ex_src \<le> maxnatom ex_dst
   \<and> int (length [2, - 1, 0 :: int]) = natom ex_src \<and> maps_into [2, - 1, 0] ex_src
   \<and> SetReferenceByMap ex_dst ex_src [2, - 1, 0] =
       Inr (ex_dst\<lparr>X := Buf [10, 20, 30, 70, 80, 90, 7, 8, 9], ncoord := 6, natom := 2\<rparr>)
   \<and> SetTargetByMap ex_dst ex_src [2, - 1, 0] =
       Inr (ex_dst\<lparr>X := Buf [70, 80, 90, 10, 20, 30, 7, 8, 9], ncoord := 6, natom := 2\<rparr>)"
proof -
  have h: "allocated ex_dst" "wf_Frame ex_src" "natom ex_src \<le> maxnatom ex_dst"
          "int (length [2, - 1, 0 :: int]) = natom ex_src"
    by (simp_all add: allocated_def wf_Frame_def ex_dst_def ex_src_def)
  have m: "maps_into [2, - 1, 0] ex_src"
    by (simp add: maps_into_def ex_src_def)
  show ?thesis
    using h m SetByMap_asymmetry[OF h]
    by (simp add: map_cells_def cells_def selected_def crd_def mapped_entries_def
                  mapped_positions_def enumerate_eq_zip upt_rec ex_dst_def ex_src_def)
qed

section \<open>Divide\<close>



lemma wf_Frame_cells:
  assumes "wf_Frame f"
  shows "(natom f = 0 \<and> ncoord f = 0) \<or> (\<exists>cs. X f = Buf cs \<and> nat (ncoord f) \<le> length cs)"
  using assms by (auto simp: wf_Frame_def allocated_def split: buffer.splits)






section \<open>SetFromCRD and the invariant ncoord = natom * 3\<close>

lemma SetFromCRD_counts:
  assumes "SetFromCRD this farray numBoxCrd = Inr r"
  shows "ncoord r = int (length farray) - numBoxCrd"
    and "natom r = (int (length farray) - numBoxCrd) sdiv 3"
  using assms
  by (auto simp: SetFromCRD_def Let_def and_then_def split: if_splits sum.splits)

text \<open>The overload with a mask, which sets \<open>natom_\<close> first, keeps the invariant.\<close>

lemma SetFromCRD_mask_invariant:
  assumes "SetFromCRD_mask this farray numBoxCrd maskIn = Inr r"
  shows "ncoord r = natom r * 3"
  using assms
  by (auto simp: SetFromCRD_mask_def Let_def and_then_def split: if_splits sum.splits)

text \<open>So do the other mutators modelled here, whenever they return: the constructor from a
  mask and the two copies by map establish it, and \<open>AddXYZ\<close>, \<open>AddByMask\<close> and the two
  \<open>Divide\<close> keep it.\<close>

lemma Frame_by_mask_invariant:
  assumes "Frame_by_mask frameIn maskIn = Inr r"
  shows "ncoord r = natom r * 3"
  using assms
  by (auto simp: Frame_by_mask_def Let_def and_then_def split: if_splits sum.splits prod.splits)

lemma SetReferenceByMap_invariant:
  assumes "SetReferenceByMap this src mapIn = Inr r"
  shows "ncoord r = natom r * 3"
proof -
  have "SetReferenceByMap_loop (X this) 0 (X src) (int 0 * 3) mapIn = Inr (X', newX)
        \<Longrightarrow> newX = 3 * int (length (mapped_positions 0 mapIn))" for X' newX
    unfolding SetReferenceByMap_loop_copy by (auto simp: and_then_def split: sum.splits)
  then show ?thesis
    using assms
    by (auto simp: SetReferenceByMap_def and_then_def split: if_splits sum.splits prod.splits)
qed

lemma SetTargetByMap_invariant:
  assumes "SetTargetByMap this src mapIn = Inr r"
  shows "ncoord r = natom r * 3"
proof -
  have "SetTargetByMap_loop (X this) 0 (X src) mapIn = Inr (X', newX)
        \<Longrightarrow> newX = 3 * int (length (mapped_entries mapIn))" for X' newX
    unfolding SetTargetByMap_loop_copy by (auto simp: and_then_def split: sum.splits)
  then show ?thesis
    using assms
    by (auto simp: SetTargetByMap_def and_then_def split: if_splits sum.splits prod.splits)
qed

lemma AddXYZ_invariant:
  assumes "AddXYZ this XYZin = Inr r" and "ncoord this = natom this * 3"
  shows "ncoord r = natom r * 3"
  using assms
  by (auto simp: AddXYZ_def ReallocateX_def Let_def and_then_def split: if_splits sum.splits)

lemma arithmetic_invariant:
  assumes "ncoord this = natom this * 3"
  shows "AddByMask this frameIn maskIn = Inr r \<Longrightarrow> ncoord r = natom r * 3"
    and "Divide SMALL this divisor = Inr r \<Longrightarrow> ncoord r = natom r * 3"
    and "Divide_frame SMALL this dividend divisor = Inr r \<Longrightarrow> ncoord r = natom r * 3"
  using assms
  by (auto simp: AddByMask_def Divide_def Divide_frame_def and_then_def
           split: if_splits sum.splits)

text \<open>
  C6. \<open>ncoord_ = natom_ * 3\<close> is meant to hold after every mutating call, and the overload
  of \<open>SetFromCRD\<close> with a mask keeps it (as do the other mutators above). \<open>SetFromCRD(farray, numBoxCrd)\<close> takes \<open>ncoord_\<close>
  from the length of the array and \<open>natom_\<close> as \<open>ncoord_ / 3\<close>: for an array of four floats
  and no box values, on a well-formed frame with room for two atoms, it returns with
  \<open>ncoord_ = 4\<close> and \<open>natom_ = 1\<close>.
\<close>

theorem SetFromCRD_breaks_invariant:
  "wf_Frame ex_this
   \<and> SetFromCRD ex_this [9, 8, 7, 6] 0 =
       Inr (ex_this\<lparr>ncoord := 4, natom := 1, X := Buf [9, 8, 7, 6, 5, 6]\<rparr>)
   \<and> ncoord (ex_this\<lparr>ncoord := 4, natom := 1, X := Buf [9, 8, 7, 6, 5, 6]\<rparr>)
       \<noteq> natom (ex_this\<lparr>ncoord := 4, natom := 1, X := Buf [9, 8, 7, 6, 5, 6]\<rparr>) * 3"
proof -
  have crd: "SetFromCRD_crd (Buf [1, 2, 3, 4, 5, 6]) [9, 8, 7, 6] 0 4 = Inr (Buf [9, 8, 7, 6, 5, 6])"
    by (simp add: SetFromCRD_crd.simps and_then_def vec_at_def wr_def)
  have bx: "SetFromCRD_box [0, 0, 0, 0, 0, 0] [9, 8, 7, 6] 0 0 4 = Inr [0, 0, 0, 0, 0, 0]"
    by (simp add: SetFromCRD_box.simps)
  have sd: "(4 :: int) sdiv 3 = 1"
    by (simp add: signed_divide_int_def)
  show ?thesis
    by (simp add: SetFromCRD_def Let_def and_then_def crd bx sd wf_Frame_def allocated_def ex_this_def)
qed

section \<open>The loops of RMSD_CenteredRef\<close>

lemma drop_atoms_of:
  "k < N \<Longrightarrow> drop k (atoms_of cs N) = atom_xyz cs k # drop (Suc k) (atoms_of cs N)"
  by (simp add: atoms_of_def Cons_nth_drop_Suc[symmetric])

lemma length_atoms_of [simp]: "length (atoms_of cs N) = N"
  by (simp add: atoms_of_def)

lemma rd_nat: "i < length cs \<Longrightarrow> rd (Buf cs) (int i) = Inr (cs ! i)"
  by (simp add: rd_def)

lemma rd_atom:
  assumes "3 * N \<le> length cs" and "k < N"
  shows "rd (Buf cs) (int (3 * k)) = Inr (vx (atom_xyz cs k))"
    and "rd (Buf cs) (int (3 * k) + 1) = Inr (vy (atom_xyz cs k))"
    and "rd (Buf cs) (int (3 * k) + 2) = Inr (vz (atom_xyz cs k))"
proof -
  have n: "int (3 * k) + 1 = int (3 * k + 1)" "int (3 * k) + 2 = int (3 * k + 2)"
    by simp_all
  have i: "3 * k < length cs" "3 * k + 1 < length cs" "3 * k + 2 < length cs"
    using assms by linarith+
  show "rd (Buf cs) (int (3 * k)) = Inr (vx (atom_xyz cs k))"
    by (simp only: rd_nat[OF i(1)] atom_xyz_def vx_def fst_conv)
  show "rd (Buf cs) (int (3 * k) + 1) = Inr (vy (atom_xyz cs k))"
    by (simp only: n rd_nat[OF i(2)] atom_xyz_def vy_def fst_conv snd_conv)
  show "rd (Buf cs) (int (3 * k) + 2) = Inr (vz (atom_xyz cs k))"
    by (simp only: n rd_nat[OF i(3)] atom_xyz_def vz_def fst_conv snd_conv)
qed

lemma center_geom_loop_Buf:
  assumes "3 * N \<le> length cs" and "k \<le> N"
  shows "center_geom_loop (Buf cs) (int (3 * k)) (int (3 * N)) (t0, t1, t2)
       = Inr (t0 + sum_list (map vx (drop k (atoms_of cs N))),
              t1 + sum_list (map vy (drop k (atoms_of cs N))),
              t2 + sum_list (map vz (drop k (atoms_of cs N))))"
  using assms(2)
proof (induction "N - k" arbitrary: k t0 t1 t2)
  case 0
  then show ?case by (subst center_geom_loop.simps) simp
next
  case (Suc d)
  then have k: "k < N" by simp
  have nxt: "int (3 * k) + 3 = int (3 * Suc k)" by simp
  have ih: "center_geom_loop (Buf cs) (int (3 * Suc k)) (int (3 * N)) (a, b, c)
          = Inr (a + sum_list (map vx (drop (Suc k) (atoms_of cs N))),
                 b + sum_list (map vy (drop (Suc k) (atoms_of cs N))),
                 c + sum_list (map vz (drop (Suc k) (atoms_of cs N))))" for a b c
    using Suc.hyps(2) k by (intro Suc.hyps(1)) simp_all
  have lt: "int (3 * k) < int (3 * N)" using k by simp
  show ?case
    apply (subst center_geom_loop.simps)
    apply (simp only: rd_atom[OF assms(1) k] and_then_def nxt ih drop_atoms_of[OF k] lt if_True
                      sum.case prod.case)
    apply (simp add: add.assoc)
    done
qed

lemma center_mass_loop_Buf:
  assumes "3 * N \<le> length cs" and "N \<le> length ms" and "k \<le> N"
  shows "center_mass_loop (Buf cs) ms (int k) (int (3 * k)) (int (3 * N)) tot (t0, t1, t2)
       = Inr (tot + sum_list (drop k (take N ms)),
              t0 + wsum (drop k (take N ms)) (map vx (drop k (atoms_of cs N))),
              t1 + wsum (drop k (take N ms)) (map vy (drop k (atoms_of cs N))),
              t2 + wsum (drop k (take N ms)) (map vz (drop k (atoms_of cs N))))"
  using assms(3)
proof (induction "N - k" arbitrary: k tot t0 t1 t2)
  case 0
  then show ?case by (subst center_mass_loop.simps) (simp add: wsum_def)
next
  case (Suc d)
  then have k: "k < N" by simp
  have nxt: "int (3 * k) + 3 = int (3 * Suc k)" "int k + 1 = int (Suc k)" by simp_all
  have m: "vec_at ms (int k) = Inr (ms ! k)"
    using k assms(2) by (simp add: vec_at_def)
  have dm: "drop k (take N ms) = ms ! k # drop (Suc k) (take N ms)"
    using k assms(2) by (simp add: Cons_nth_drop_Suc[symmetric])
  have ih: "center_mass_loop (Buf cs) ms (int (Suc k)) (int (3 * Suc k)) (int (3 * N)) w (a, b, c)
          = Inr (w + sum_list (drop (Suc k) (take N ms)),
                 a + wsum (drop (Suc k) (take N ms)) (map vx (drop (Suc k) (atoms_of cs N))),
                 b + wsum (drop (Suc k) (take N ms)) (map vy (drop (Suc k) (atoms_of cs N))),
                 c + wsum (drop (Suc k) (take N ms)) (map vz (drop (Suc k) (atoms_of cs N))))"
    for w a b c
    using Suc.hyps(2) k by (intro Suc.hyps(1)) simp_all
  have lt: "int (3 * k) < int (3 * N)" using k by simp
  show ?case
    apply (subst center_mass_loop.simps)
    apply (simp only: rd_atom[OF assms(1) k] m and_then_def nxt ih lt if_True sum.case prod.case)
    apply (simp add: drop_atoms_of[OF k] dm wsum_def add.assoc mult.commute)
    done
qed

lemma Kabsch_loop_Buf:
  assumes "3 * N \<le> length cs" and "3 * N \<le> length rs"
      and "useMass \<longrightarrow> N \<le> length ms" and "k \<le> N"
      and "ws = (if useMass then take N ms else replicate N 1)"
      and "t = drop k (zip ws (zip (atoms_of cs N) (atoms_of rs N)))"
  shows "Kabsch_loop (Buf cs) (Buf rs) ms useMass (if useMass then int k else 0)
           (int (3 * k)) (int (3 * N)) mwss rot
       = Inr (mwss + csum (\<lambda>p r. norm2 p + norm2 r) t,
              Matrix_3x3
                (m0 rot + csum (\<lambda>p r. vx p * vx r) t) (m1 rot + csum (\<lambda>p r. vx p * vy r) t)
                (m2 rot + csum (\<lambda>p r. vx p * vz r) t)
                (m3 rot + csum (\<lambda>p r. vy p * vx r) t) (m4 rot + csum (\<lambda>p r. vy p * vy r) t)
                (m5 rot + csum (\<lambda>p r. vy p * vz r) t)
                (m6 rot + csum (\<lambda>p r. vz p * vx r) t) (m7 rot + csum (\<lambda>p r. vz p * vy r) t)
                (m8 rot + csum (\<lambda>p r. vz p * vz r) t))"
  using assms(4,6)
proof (induction "N - k" arbitrary: k mwss rot t)
  case 0
  then show ?case
    using assms(5) by (subst Kabsch_loop.simps) (cases rot; simp add: csum_def)
next
  case (Suc d)
  then have k: "k < N" by simp
  let ?w = "ws ! k" and ?p = "atom_xyz cs k" and ?r = "atom_xyz rs k"
  let ?t' = "drop (Suc k) (zip ws (zip (atoms_of cs N) (atoms_of rs N)))"
  have lw: "length ws = N" using assms(3,5) by simp
  have t: "t = (?w, ?p, ?r) # ?t'"
    unfolding Suc.prems(2)
    using k lw by (simp add: Cons_nth_drop_Suc[symmetric] atoms_of_def)
  have nxt: "int (3 * k) + 3 = int (3 * Suc k)" "int k + 1 = int (Suc k)" by simp_all
  have m: "(if useMass then vec_at ms (if useMass then int k else 0) else Inr 1) = Inr ?w"
    using k assms(3,5) by (auto simp: vec_at_def)
  have idx: "(if useMass then (if useMass then int k else 0) + 1 else (if useMass then int k else 0))
           = (if useMass then int (Suc k) else 0)"
    by simp
  have ih: "Kabsch_loop (Buf cs) (Buf rs) ms useMass (if useMass then int (Suc k) else 0)
              (int (3 * Suc k)) (int (3 * N)) e q
          = Inr (e + csum (\<lambda>p r. norm2 p + norm2 r) ?t',
              Matrix_3x3
                (m0 q + csum (\<lambda>p r. vx p * vx r) ?t') (m1 q + csum (\<lambda>p r. vx p * vy r) ?t')
                (m2 q + csum (\<lambda>p r. vx p * vz r) ?t')
                (m3 q + csum (\<lambda>p r. vy p * vx r) ?t') (m4 q + csum (\<lambda>p r. vy p * vy r) ?t')
                (m5 q + csum (\<lambda>p r. vy p * vz r) ?t')
                (m6 q + csum (\<lambda>p r. vz p * vx r) ?t') (m7 q + csum (\<lambda>p r. vz p * vy r) ?t')
                (m8 q + csum (\<lambda>p r. vz p * vz r) ?t'))" for e q
    using Suc.hyps(2) k by (intro Suc.hyps(1)) simp_all
  have cs: "csum g t = ?w * g ?p ?r + csum g ?t'" for g
    by (simp add: t csum_def)
  have lt: "int (3 * k) < int (3 * N)" using k by simp
  show ?case
    apply (subst Kabsch_loop.simps)
    apply (simp only: rd_atom[OF assms(1) k] rd_atom[OF assms(2) k] m idx nxt ih and_then_def
                      sum.case Matrix_3x3.sel cs lt if_True)
    apply (simp add: norm2_def algebra_simps)
    done
qed

section \<open>RMSD_CenteredRef, as a whole\<close>

lemma wsum_replicate_1: "length xs = N \<Longrightarrow> wsum (replicate N 1) xs = sum_list xs"
proof (induction xs arbitrary: N)
  case Nil
  then show ?case by (simp add: wsum_def)
next
  case (Cons x xs)
  then obtain M where "N = Suc M" "length xs = M" by (cases N) auto
  then show ?case using Cons.IH[of M] by (simp add: wsum_def)
qed

lemma length_flat: "length (flat ps) = 3 * length ps"
  by (induction ps) (auto simp: flat_def)

lemma length_shifted: "3 * N \<le> length cs \<Longrightarrow> length (shifted v N cs) = length cs"
  by (cases v) (simp add: shifted_def length_flat)

lemma loops_at_end:
  "center_geom_loop Xp 0 0 Trans = Inr Trans"
  "center_mass_loop Xp ms 0 0 0 tot Trans = Inr (tot, Trans)"
  by (subst center_geom_loop.simps, simp) (subst center_mass_loop.simps, simp)

text \<open>The summation phase: the total weight and the weighted coordinate sums.\<close>

lemma center_phase:
  assumes "wf_Frame this" and "useMass \<longrightarrow> natom this \<le> int (length (Mass this))"
  shows "(if useMass then center_mass_loop (X this) (Mass this) 0 0 (ncoord this) 0 (0, 0, 0)
          else and_then (center_geom_loop (X this) 0 (ncoord this) (0, 0, 0))
                 (\<lambda>Trans. Inr (real_of_int (natom this), Trans)))
       = Inr (total_weight this useMass,
              wsum (weights this useMass) (map vx (frame_atoms this)),
              wsum (weights this useMass) (map vy (frame_atoms this)),
              wsum (weights this useMass) (map vz (frame_atoms this)))"
proof -
  let ?N = "nat (natom this)"
  have nc: "ncoord this = int (3 * ?N)" "0 \<le> natom this"
    using assms(1) by (simp_all add: wf_Frame_def)
  show ?thesis
  proof (cases "natom this = 0")
    case True
    then show ?thesis
      using nc by (simp add: loops_at_end and_then_def total_weight_def weights_def wsum_def
                             frame_atoms_def atoms_of_def)
  next
    case False
    then obtain cs where cs: "X this = Buf cs" "3 * ?N \<le> length cs"
      using wf_Frame_cells[OF assms(1)] nc by auto
    show ?thesis
    proof (cases useMass)
      case True
      then have m: "?N \<le> length (Mass this)" using assms(2) by (auto simp: nat_le_iff)
      have "center_mass_loop (Buf cs) (Mass this) (int 0) (int (3 * 0)) (int (3 * ?N)) 0 (0, 0, 0)
          = Inr (0 + sum_list (drop 0 (take ?N (Mass this))),
                 0 + wsum (drop 0 (take ?N (Mass this))) (map vx (drop 0 (atoms_of cs ?N))),
                 0 + wsum (drop 0 (take ?N (Mass this))) (map vy (drop 0 (atoms_of cs ?N))),
                 0 + wsum (drop 0 (take ?N (Mass this))) (map vz (drop 0 (atoms_of cs ?N))))"
        using cs(2) m by (intro center_mass_loop_Buf) simp_all
      then show ?thesis
        using True
        by (simp add: cs(1) nc(1) total_weight_def weights_def frame_atoms_def cells_def)
    next
      case False
      have "center_geom_loop (Buf cs) (int (3 * 0)) (int (3 * ?N)) (0, 0, 0)
          = Inr (0 + sum_list (map vx (drop 0 (atoms_of cs ?N))),
                 0 + sum_list (map vy (drop 0 (atoms_of cs ?N))),
                 0 + sum_list (map vz (drop 0 (atoms_of cs ?N))))"
        using cs(2) by (intro center_geom_loop_Buf) simp_all
      then show ?thesis
        using False nc(2)
        by (simp add: cs(1) nc(1) total_weight_def weights_def frame_atoms_def cells_def
                      and_then_def wsum_replicate_1 sum_list_replicate)
    qed
  qed
qed

text \<open>The translation phase, for a frame that holds at least one atom.\<close>

lemma Translate_centered:
  assumes "wf_Frame this" and "0 < natom this"
  shows "Translate this (Neg (centroid (weights this useMass) (frame_atoms this)))
       = Inr (centered this useMass)"
proof -
  obtain cs where cs: "X this = Buf cs" "3 * nat (natom this) \<le> length cs"
    using wf_Frame_cells[OF assms(1)] assms
    by (auto simp: wf_Frame_def)
  then have "natom this * 3 \<le> int (length cs)" by linarith
  then show ?thesis
    using assms(2) cs(1) by (simp add: Translate_def centered_def map_cells_def)
qed

text \<open>The accumulation phase, on the translated frame.\<close>

lemma Kabsch_phase:
  assumes "wf_Frame this" and "wf_Frame Ref" and "natom Ref = natom this"
      and "useMass \<longrightarrow> natom this \<le> int (length (Mass this))" and "0 < natom this"
      and "this' = centered this useMass"
  shows "Kabsch_loop (X this') (X Ref) (Mass this') useMass 0 0 (ncoord this') 0
           (Matrix_3x3 0 0 0 0 0 0 0 0 0)
       = Inr (2 * E0_of (weights this useMass) (frame_atoms this') (frame_atoms Ref),
              covariance (weights this useMass) (frame_atoms this') (frame_atoms Ref))"
proof -
  let ?N = "nat (natom this)"
  obtain cs where cs: "X this = Buf cs" "3 * ?N \<le> length cs"
    using wf_Frame_cells[OF assms(1)] assms(1,5) by (auto simp: wf_Frame_def)
  obtain rs where rs: "X Ref = Buf rs" "3 * ?N \<le> length rs"
    using wf_Frame_cells[OF assms(2)] assms(2,3,5) by (auto simp: wf_Frame_def)
  obtain cs' where cs': "X this' = Buf cs'" "3 * ?N \<le> length cs'"
    using cs length_shifted[OF cs(2)] by (simp add: assms(6) centered_def map_cells_def)
  have same: "Mass this' = Mass this" "ncoord this' = int (3 * ?N)" "natom this' = natom this"
    using assms(1) by (simp_all add: assms(6) centered_def wf_Frame_def)
  have m: "useMass \<longrightarrow> ?N \<le> length (Mass this)" using assms(4) by (auto simp: nat_le_iff)
  have z: "(0 :: int) = (if useMass then int 0 else 0)" "(0 :: int) = int (3 * 0)" by simp_all
  have "Kabsch_loop (Buf cs') (Buf rs) (Mass this) useMass (if useMass then int 0 else 0)
           (int (3 * 0)) (int (3 * ?N)) 0 (Matrix_3x3 0 0 0 0 0 0 0 0 0)
       = Inr (0 + csum (\<lambda>p r. norm2 p + norm2 r) (drop 0 (zip (weights this useMass) (zip (atoms_of cs' ?N) (atoms_of rs ?N)))),
              Matrix_3x3
                (m0 (Matrix_3x3 0 0 0 0 0 0 0 0 0) + csum (\<lambda>p r. vx p * vx r) (drop 0 (zip (weights this useMass) (zip (atoms_of cs' ?N) (atoms_of rs ?N)))))
                (m1 (Matrix_3x3 0 0 0 0 0 0 0 0 0) + csum (\<lambda>p r. vx p * vy r) (drop 0 (zip (weights this useMass) (zip (atoms_of cs' ?N) (atoms_of rs ?N)))))
                (m2 (Matrix_3x3 0 0 0 0 0 0 0 0 0) + csum (\<lambda>p r. vx p * vz r) (drop 0 (zip (weights this useMass) (zip (atoms_of cs' ?N) (atoms_of rs ?N)))))
                (m3 (Matrix_3x3 0 0 0 0 0 0 0 0 0) + csum (\<lambda>p r. vy p * vx r) (drop 0 (zip (weights this useMass) (zip (atoms_of cs' ?N) (atoms_of rs ?N)))))
                (m4 (Matrix_3x3 0 0 0 0 0 0 0 0 0) + csum (\<lambda>p r. vy p * vy r) (drop 0 (zip (weights this useMass) (zip (atoms_of cs' ?N) (atoms_of rs ?N)))))
                (m5 (Matrix_3x3 0 0 0 0 0 0 0 0 0) + csum (\<lambda>p r. vy p * vz r) (drop 0 (zip (weights this useMass) (zip (atoms_of cs' ?N) (atoms_of rs ?N)))))
                (m6 (Matrix_3x3 0 0 0 0 0 0 0 0 0) + csum (\<lambda>p r. vz p * vx r) (drop 0 (zip (weights this useMass) (zip (atoms_of cs' ?N) (atoms_of rs ?N)))))
                (m7 (Matrix_3x3 0 0 0 0 0 0 0 0 0) + csum (\<lambda>p r. vz p * vy r) (drop 0 (zip (weights this useMass) (zip (atoms_of cs' ?N) (atoms_of rs ?N)))))
                (m8 (Matrix_3x3 0 0 0 0 0 0 0 0 0) + csum (\<lambda>p r. vz p * vz r) (drop 0 (zip (weights this useMass) (zip (atoms_of cs' ?N) (atoms_of rs ?N))))))"
    using cs'(2) rs(2) m by (intro Kabsch_loop_Buf) (simp_all add: weights_def)
  then show ?thesis
    unfolding cs'(1) rs(1) same z[symmetric]
    by (simp add: E0_of_def covariance_def Let_def frame_atoms_def cells_def cs' rs same assms(3))
qed

text \<open>The sign \<open>sig3\<close> that the code computes from the normalised vectors is the chirality
  sign; it is the sign of the determinant of \<open>R\<close> when the first two eigenvectors are not
  parallel.\<close>

lemma norm2_eq_0: "norm2 v = 0 \<longleftrightarrow> v = (0, 0, 0)"
proof (cases v)
  case (fields x y z)
  have "x * x + y * y + z * z = 0 \<longleftrightarrow> x * x + y * y = 0 \<and> z * z = 0"
    by (rule add_nonneg_eq_0_iff) simp_all
  then have "x * x + y * y + z * z = 0 \<longleftrightarrow> x = 0 \<and> y = 0 \<and> z = 0"
    by (simp add: sum_squares_eq_zero_iff)
  then show ?thesis by (simp add: fields norm2_def vx_def vy_def vz_def)
qed

lemma normalize_eq:
  "normalize v = (if norm2 v = 0 then None else Some (vscale (1 / sqrt (norm2 v)) v))"
  by (cases v) (simp add: normalize_def norm2_def vscale_def vx_def vy_def vz_def Let_def)

lemma triple_scaled:
  "vdot (vcross (vscale s p) (vscale t q)) (vscale u r) = (s * t * u) * vdot (vcross p q) r"
  by (cases p; cases q; cases r)
     (simp add: vdot_def vcross_def vscale_def vx_def vy_def vz_def algebra_simps)

lemma triple_zero:
  "vdot (vcross (0, 0, 0) q) r = 0" "vdot (vcross p (0, 0, 0)) r = 0" "vdot (vcross p q) (0, 0, 0) = 0"
  by (simp_all add: vdot_def vcross_def vx_def vy_def vz_def)

lemma Kabsch_rotation_sig3: "fst (Kabsch_rotation rot Evector) = chirality_sign rot Evector"
proof -
  define a0 where "a0 = eigenvector Evector 0"
  define a1 where "a1 = eigenvector Evector 1"
  define p where "p = through rot a0"
  define q where "q = through rot a1"
  define r where "r = through rot (vcross a0 a1)"
  have F: "fst (Kabsch_rotation rot Evector) =
      (case normalize p of None \<Rightarrow> 1 | Some b0 \<Rightarrow>
        (case normalize q of None \<Rightarrow> 1 | Some b1 \<Rightarrow>
          (case normalize r of None \<Rightarrow> 1 | Some b2 \<Rightarrow>
             if vdot (vcross b0 b1) b2 < 0 then - 1 else 1)))"
    by (simp add: Kabsch_rotation_def Let_def p_def q_def r_def a0_def a1_def eigenvector_def
                  through_def vcross_def vdot_def vx_def vy_def vz_def
             split: option.splits prod.splits)
  have C: "chirality_sign rot Evector = (if vdot (vcross p q) r < 0 then - 1 else 1)"
    by (simp add: chirality_sign_def handedness_def p_def q_def r_def a0_def a1_def)
  show ?thesis
  proof (cases "norm2 p = 0 \<or> norm2 q = 0 \<or> norm2 r = 0")
    case True
    then have "vdot (vcross p q) r = 0"
      by (auto simp: norm2_eq_0 triple_zero)
    then show ?thesis using True by (auto simp: F C normalize_eq)
  next
    case False
    define k where "k = (1 / sqrt (norm2 p)) * (1 / sqrt (norm2 q)) * (1 / sqrt (norm2 r))"
    have nn: "0 \<le> norm2 v" for v by (simp add: norm2_def)
    have "0 < norm2 p" "0 < norm2 q" "0 < norm2 r"
      using False nn[of p] nn[of q] nn[of r] by (simp_all add: less_le)
    then have k: "0 < k" by (simp add: k_def)
    have "(k * vdot (vcross p q) r < 0) = (vdot (vcross p q) r < 0)"
      using k by (simp add: mult_less_0_iff not_less less_imp_le)
    then show ?thesis
      using False by (simp add: F C normalize_eq triple_scaled k_def)
  qed
qed

lemma handedness_det: "handedness R a0 a1 = det3 R * norm2 (vcross a0 a1)"
  by (cases R; cases a0; cases a1)
     (simp add: handedness_def det3_def norm2_def vcross_def vdot_def through_def vx_def vy_def vz_def
                algebra_simps)

lemma chirality_sign_det:
  assumes "vcross (eigenvector Evector 0) (eigenvector Evector 1) \<noteq> (0, 0, 0)"
  shows "chirality_sign R Evector = (if det3 R < 0 then - 1 else 1)"
proof -
  have nn: "0 \<le> norm2 v" for v by (simp add: norm2_def)
  have "0 < norm2 (vcross (eigenvector Evector 0) (eigenvector Evector 1))"
    using assms nn[of "vcross (eigenvector Evector 0) (eigenvector Evector 1)"]
    by (simp add: less_le norm2_eq_0)
  then show ?thesis
    by (simp add: chirality_sign_def handedness_det mult_less_0_iff not_less less_imp_le)
qed

lemma clamped_root_pos:
  "0 < W \<Longrightarrow> clamped_root E W = Inr (rmsd_of_energy E W)"
  by (simp add: clamped_root_def fsqrt_def rmsd_of_energy_def not_less divide_less_0_iff)

lemma RMSD_CenteredRef_eq:
  assumes "wf_Frame this" and "wf_Frame Ref" and "natom Ref = natom this"
      and "useMass \<longrightarrow> natom this \<le> int (length (Mass this))" and "0 < SMALL"
  shows "RMSD_CenteredRef SMALL TM D this Ref U useMass =
     Inr (if total_weight this useMass < SMALL
          then \<lparr>returned = - 1, reported = Some DivideByZero, this_out = this, U_out = U,
                Trans_out = (wsum (weights this useMass) (map vx (frame_atoms this)),
                             wsum (weights this useMass) (map vy (frame_atoms this)),
                             wsum (weights this useMass) (map vz (frame_atoms this)))\<rparr>
          else (let this' = centered this useMass;
                    R = covariance (weights this useMass) (frame_atoms this') (frame_atoms Ref);
                    E0 = E0_of (weights this useMass) (frame_atoms this') (frame_atoms Ref);
                    Trans = Neg (centroid (weights this useMass) (frame_atoms this))
                in case D (TM R R) of
                     None \<Rightarrow> \<lparr>returned = 0, reported = None, this_out = this', U_out = U,
                              Trans_out = Trans\<rparr>
                   | Some (Eigenvalue, Evector) \<Rightarrow>
                       \<lparr>returned = rmsd_of_energy
                                     (fit_energy E0 Eigenvalue (chirality_sign R Evector))
                                     (total_weight this useMass),
                        reported = None, this_out = this',
                        U_out = snd (Kabsch_rotation R Evector), Trans_out = Trans\<rparr>))"
proof (cases "total_weight this useMass < SMALL")
  case True
  then show ?thesis
    by (simp add: RMSD_CenteredRef_def center_phase[OF assms(1,4)] and_then_def)
next
  case False
  let ?W = "total_weight this useMass"
  have W: "0 < ?W" using False assms(5) by linarith
  have pos: "0 < natom this"
  proof (rule ccontr)
    assume "\<not> 0 < natom this"
    then have "?W = 0" by (simp add: total_weight_def weights_def)
    then show False using W by simp
  qed
  let ?this' = "centered this useMass"
  have tr: "Neg (wsum (weights this useMass) (map vx (frame_atoms this)) / ?W,
                 wsum (weights this useMass) (map vy (frame_atoms this)) / ?W,
                 wsum (weights this useMass) (map vz (frame_atoms this)) / ?W)
          = Neg (centroid (weights this useMass) (frame_atoms this))"
    by (simp add: centroid_def total_weight_def)
  note k = Kabsch_phase[OF assms(1-4) pos refl]
  note t = Translate_centered[OF assms(1) pos, of useMass]
  show ?thesis
    using False W
    by (simp add: RMSD_CenteredRef_def center_phase[OF assms(1,4)] and_then_def fdiv_def
                  tr t k Let_def fit_energy_def clamped_root_pos[OF W] case_prod_beta
                  Kabsch_rotation_sig3[symmetric]
             split: option.splits)
qed

section \<open>The claims about RMSD_CenteredRef and RMSD\<close>

lemma ex_pair_facts:
  "wf_Frame ex_pair" "wf_Frame ex_pair_moved" "wf_Frame ex_pair_centered" "wf_Frame ex_weightless"
  "weights ex_pair True = [2, 2]" "total_weight ex_pair True = 4"
  "weights ex_pair_moved True = [2, 2]" "total_weight ex_pair_moved True = 4"
  "total_weight ex_weightless True = 0"
  "frame_atoms ex_pair = [(0, 0, 0), (1, 0, 0)]"
  "frame_atoms ex_pair_moved = [(5, 5, 5), (6, 5, 5)]"
  "frame_atoms ex_pair_centered = [(- (1 / 2), 0, 0), (1 / 2, 0, 0)]"
  "frame_atoms ex_weightless = [(0, 0, 0), (1, 0, 0)]"
  by (simp_all add: wf_Frame_def allocated_def weights_def total_weight_def frame_atoms_def
                    atoms_of_def atom_xyz_def cells_def upt_rec
                    ex_pair_def ex_pair_moved_def ex_pair_centered_def ex_weightless_def)

lemma ex_pair_centered_eq:
  "centered ex_pair True = ex_pair_centered"
  "centered ex_pair_moved True = ex_pair_centered"
  "centroid [2, 2] [(0, 0, 0), (1, 0, 0)] = (1 / 2, 0, 0)"
  "centroid [2, 2] [(5, 5, 5), (6, 5, 5)] = (11 / 2, 5, 5)"
  unfolding centered_def ex_pair_facts
  by (simp_all add: centroid_def wsum_def vx_def vy_def vz_def Neg_def shifted_def flat_def
                    atoms_of_def atom_xyz_def map_cells_def upt_rec
                    ex_pair_def ex_pair_moved_def ex_pair_centered_def)

lemma ex_pair_covariance:
  "covariance [2, 2] [(- (1 / 2), 0, 0), (1 / 2, 0, 0)] [(- (1 / 2), 0, 0), (1 / 2, 0, 0)]
     = Matrix_3x3 1 0 0 0 0 0 0 0 0"
  "E0_of [2, 2] [(- (1 / 2), 0, 0), (1 / 2, 0, 0)] [(- (1 / 2), 0, 0), (1 / 2, 0, 0)] = 1"
  by (simp_all add: covariance_def E0_of_def csum_def norm2_def vx_def vy_def vz_def)

lemma ex_tetra_facts:
  "wf_Frame ex_tetra" "wf_Frame ex_tetra_mirrored" "natom ex_tetra_mirrored = natom ex_tetra"
  "weights ex_tetra False = [1, 1, 1, 1]" "total_weight ex_tetra False = 4"
  "frame_atoms ex_tetra = [(1, 1, 1), (1, - 1, - 1), (- 1, 1, - 1), (- 1, - 1, 1)]"
  "frame_atoms ex_tetra_mirrored = [(1, 1, - 1), (1, - 1, 1), (- 1, 1, 1), (- 1, - 1, - 1)]"
  by (simp_all add: wf_Frame_def allocated_def weights_def total_weight_def frame_atoms_def
                    atoms_of_def atom_xyz_def cells_def upt_rec numeral_eq_Suc
                    ex_tetra_def ex_tetra_mirrored_def)

lemma ex_tetra_centered_eq: "centered ex_tetra False = ex_tetra"
  unfolding centered_def ex_tetra_facts
  by (simp add: centroid_def wsum_def vx_def vy_def vz_def Neg_def shifted_def flat_def
                atoms_of_def atom_xyz_def map_cells_def upt_rec ex_tetra_def)

lemma ex_tetra_covariance:
  "covariance [1, 1, 1, 1] [(1, 1, 1), (1, - 1, - 1), (- 1, 1, - 1), (- 1, - 1, 1)]
     [(1, 1, - 1), (1, - 1, 1), (- 1, 1, 1), (- 1, - 1, - 1)]
     = Matrix_3x3 4 0 0 0 4 0 0 0 (- 4)"
  "E0_of [1, 1, 1, 1] [(1, 1, 1), (1, - 1, - 1), (- 1, 1, - 1), (- 1, - 1, 1)]
     [(1, 1, - 1), (1, - 1, 1), (- 1, 1, 1), (- 1, - 1, - 1)] = 12"
  by (simp_all add: covariance_def E0_of_def csum_def norm2_def vx_def vy_def vz_def)

lemma ex_roots: "sqrt 16 = 4" "sqrt 4 = 2"
  using real_sqrt_abs[of 4] real_sqrt_abs[of 2] by simp_all

text \<open>
  C1. For two well-formed frames of the same number of atoms (with masses for every atom
  when the fit is mass-weighted), a positive threshold that the total weight \<open>W\<close> reaches,
  and a diagonalisation that succeeds with eigenvalues \<open>(ev0, ev1, ev2)\<close>,
  \<open>RMSD_CenteredRef\<close> returns \<open>sqrt (2 * E / W)\<close> for
  \<open>E = E0 - sqrt|ev0| - sqrt|ev1| - sig3 * sqrt|ev2|\<close>, and exactly 0 when \<open>E < 0\<close>. Here
  \<open>E0\<close> is half the weighted sum of the squared norms of the positions of this frame after
  its centring and of the reference, the matrix diagonalised is \<open>TransposeMult\<close> of the
  weighted cross-covariance \<open>R\<close> with itself, and \<open>sig3\<close> is the chirality sign: \<open>-1\<close> when
  \<open>R\<close> takes the right-handed triad made of the first two eigenvectors and their cross
  product to a left-handed triple, \<open>+1\<close> otherwise.
\<close>

theorem RMSD_CenteredRef_value:
  assumes "wf_Frame this" and "wf_Frame Ref" and "natom Ref = natom this"
      and "useMass \<longrightarrow> natom this \<le> int (length (Mass this))"
      and "0 < SMALL" and "SMALL \<le> total_weight this useMass"
      and "R = covariance (weights this useMass)
                 (frame_atoms (centered this useMass)) (frame_atoms Ref)"
      and "E0 = E0_of (weights this useMass)
                 (frame_atoms (centered this useMass)) (frame_atoms Ref)"
      and "Diagonalize_Sort (TransposeMult R R) = Some ((ev0, ev1, ev2), Evector)"
      and "sig3 = chirality_sign R Evector"
      and "E = E0 - sqrt \<bar>ev0\<bar> - sqrt \<bar>ev1\<bar> - sig3 * sqrt \<bar>ev2\<bar>"
  shows "\<exists>r. RMSD_CenteredRef SMALL TransposeMult Diagonalize_Sort this Ref U useMass = Inr r
           \<and> reported r = None
           \<and> returned r = (if E < 0 then 0 else sqrt (2 * E / total_weight this useMass))"
  using assms(6,9)
  unfolding RMSD_CenteredRef_eq[OF assms(1-5)] assms(7,8,10,11)
  by (simp add: Let_def fit_energy_def rmsd_of_energy_def)

theorem RMSD_CenteredRef_value_witness:
  "wf_Frame ex_tetra \<and> wf_Frame ex_tetra_mirrored \<and> natom ex_tetra_mirrored = natom ex_tetra
   \<and> 0 < ex_SMALL \<and> ex_SMALL \<le> total_weight ex_tetra False
   \<and> ex_Diagonalize_Sort (ex_TransposeMult (Matrix_3x3 4 0 0 0 4 0 0 0 (- 4))
                                            (Matrix_3x3 4 0 0 0 4 0 0 0 (- 4)))
       = Some ((16, 16, 16), Matrix_3x3 1 0 0 0 1 0 0 0 1)
   \<and> chirality_sign (Matrix_3x3 4 0 0 0 4 0 0 0 (- 4)) (Matrix_3x3 1 0 0 0 1 0 0 0 1) = - 1
   \<and> (\<exists>r. RMSD_CenteredRef ex_SMALL ex_TransposeMult ex_Diagonalize_Sort ex_tetra
             ex_tetra_mirrored ex_U False = Inr r
          \<and> reported r = None \<and> returned r = 2)
   \<and> wf_Frame ex_pair \<and> wf_Frame ex_pair_centered \<and> natom ex_pair_centered = natom ex_pair
   \<and> natom ex_pair \<le> int (length (Mass ex_pair))
   \<and> ex_SMALL \<le> total_weight ex_pair True
   \<and> ex_Diagonalize_noisy (ex_TransposeMult (Matrix_3x3 1 0 0 0 0 0 0 0 0)
                                             (Matrix_3x3 1 0 0 0 0 0 0 0 0))
       = Some ((4, 0, 0), Matrix_3x3 1 0 0 0 1 0 0 0 1)
   \<and> chirality_sign (Matrix_3x3 1 0 0 0 0 0 0 0 0) (Matrix_3x3 1 0 0 0 1 0 0 0 1) = 1
   \<and> (\<exists>r. RMSD_CenteredRef ex_SMALL ex_TransposeMult ex_Diagonalize_noisy ex_pair
             ex_pair_centered ex_U True = Inr r
          \<and> reported r = None \<and> returned r = 0)"
proof -
  have h: "wf_Frame ex_tetra" "wf_Frame ex_tetra_mirrored"
          "natom ex_tetra_mirrored = natom ex_tetra"
          "False \<longrightarrow> natom ex_tetra \<le> int (length (Mass ex_tetra))"
          "0 < ex_SMALL" "ex_SMALL \<le> total_weight ex_tetra False"
    by (simp_all add: ex_tetra_facts ex_SMALL_def)
  have R: "Matrix_3x3 4 0 0 0 4 0 0 0 (- 4)
         = covariance (weights ex_tetra False) (frame_atoms (centered ex_tetra False))
             (frame_atoms ex_tetra_mirrored)"
    and E0: "12 = E0_of (weights ex_tetra False) (frame_atoms (centered ex_tetra False))
             (frame_atoms ex_tetra_mirrored)"
    by (simp_all add: ex_tetra_facts ex_tetra_centered_eq ex_tetra_covariance)
  have d: "ex_Diagonalize_Sort (ex_TransposeMult (Matrix_3x3 4 0 0 0 4 0 0 0 (- 4))
                                                 (Matrix_3x3 4 0 0 0 4 0 0 0 (- 4)))
         = Some ((16, 16, 16), Matrix_3x3 1 0 0 0 1 0 0 0 1)"
    by (simp add: ex_Diagonalize_Sort_def ex_TransposeMult_def)
  have s: "chirality_sign (Matrix_3x3 4 0 0 0 4 0 0 0 (- 4)) (Matrix_3x3 1 0 0 0 1 0 0 0 1) = - 1"
    by (simp add: chirality_sign_def handedness_def eigenvector_def through_def vcross_def
                  vdot_def vx_def vy_def vz_def)
  have h': "wf_Frame ex_pair" "wf_Frame ex_pair_centered"
           "natom ex_pair_centered = natom ex_pair"
           "True \<longrightarrow> natom ex_pair \<le> int (length (Mass ex_pair))"
           "0 < ex_SMALL" "ex_SMALL \<le> total_weight ex_pair True"
    by (simp_all add: ex_pair_facts ex_SMALL_def) (simp_all add: ex_pair_centered_def ex_pair_def)
  have R': "Matrix_3x3 1 0 0 0 0 0 0 0 0
         = covariance (weights ex_pair True) (frame_atoms (centered ex_pair True))
             (frame_atoms ex_pair_centered)"
    and E0': "1 = E0_of (weights ex_pair True) (frame_atoms (centered ex_pair True))
             (frame_atoms ex_pair_centered)"
    by (simp_all add: ex_pair_facts ex_pair_centered_eq ex_pair_covariance)
  have d': "ex_Diagonalize_noisy (ex_TransposeMult (Matrix_3x3 1 0 0 0 0 0 0 0 0)
                                                   (Matrix_3x3 1 0 0 0 0 0 0 0 0))
         = Some ((4, 0, 0), Matrix_3x3 1 0 0 0 1 0 0 0 1)"
    by (simp add: ex_Diagonalize_noisy_def ex_TransposeMult_def)
  have s': "chirality_sign (Matrix_3x3 1 0 0 0 0 0 0 0 0) (Matrix_3x3 1 0 0 0 1 0 0 0 1) = 1"
    by (simp add: chirality_sign_def handedness_def eigenvector_def through_def vcross_def
                  vdot_def vx_def vy_def vz_def)
  note mirrored =
      RMSD_CenteredRef_value[where this = ex_tetra and Ref = ex_tetra_mirrored
        and useMass = False and SMALL = ex_SMALL and TransposeMult = ex_TransposeMult
        and Diagonalize_Sort = ex_Diagonalize_Sort and U = ex_U,
        OF h R E0 d s[symmetric] refl]
  note clamped =
      RMSD_CenteredRef_value[where this = ex_pair and Ref = ex_pair_centered
        and useMass = True and SMALL = ex_SMALL and TransposeMult = ex_TransposeMult
        and Diagonalize_Sort = ex_Diagonalize_noisy and U = ex_U,
        OF h' R' E0' d' s'[symmetric] refl]
  have m: "\<exists>r. RMSD_CenteredRef ex_SMALL ex_TransposeMult ex_Diagonalize_Sort ex_tetra
             ex_tetra_mirrored ex_U False = Inr r
          \<and> reported r = None \<and> returned r = 2"
    using mirrored by (simp add: ex_tetra_facts ex_roots)
  have c: "\<exists>r. RMSD_CenteredRef ex_SMALL ex_TransposeMult ex_Diagonalize_noisy ex_pair
             ex_pair_centered ex_U True = Inr r
          \<and> reported r = None \<and> returned r = 0"
    using clamped by (simp add: ex_pair_facts ex_roots)
  show ?thesis
    using h h' d s d' s' m c by simp
qed

lemma RMSD_CenteredRef_zero_weight:
  assumes "wf_Frame this" and "useMass \<longrightarrow> natom this \<le> int (length (Mass this))"
      and "total_weight this useMass < SMALL"
  shows "RMSD_CenteredRef SMALL TransposeMult Diagonalize_Sort this Ref U useMass =
           Inr \<lparr>returned = - 1, reported = Some DivideByZero, this_out = this, U_out = U,
                Trans_out = (wsum (weights this useMass) (map vx (frame_atoms this)),
                             wsum (weights this useMass) (map vy (frame_atoms this)),
                             wsum (weights this useMass) (map vz (frame_atoms this)))\<rparr>"
  using assms(3) by (simp add: RMSD_CenteredRef_def center_phase[OF assms(1,2)] and_then_def)

lemma wf_Frame_centered: "wf_Frame f \<Longrightarrow> wf_Frame (centered f useMass)"
proof -
  assume wf: "wf_Frame f"
  have "3 * nat (natom f) \<le> length cs" if "maxnatom f * 3 = int (length cs)" for cs :: "real list"
    using wf that unfolding wf_Frame_def by linarith
  then have "maxnatom f * 3 = int (length cs) \<Longrightarrow>
        length (shifted v (nat (natom f)) cs) = length cs" for cs v
    by (intro length_shifted)
  then show ?thesis
    using wf
    by (auto simp: wf_Frame_def allocated_def centered_def map_cells_def split: buffer.splits)
qed

lemma weight_has_atoms:
  assumes "total_weight f useMass \<noteq> 0"
  shows "0 < natom f"
proof (rule ccontr)
  assume "\<not> 0 < natom f"
  then have "total_weight f useMass = 0" by (simp add: total_weight_def weights_def)
  then show False using assms by simp
qed

text \<open>The centring of the reference by the absent helpers, as the specification words them.\<close>

lemma center_Ref:
  assumes "wf_Frame Ref" and "natom Ref = n" and "useMass \<longrightarrow> n \<le> int (length (Mass Ref))"
      and "total_weight Ref useMass \<noteq> 0"
  shows "(if useMass then VCenterOfMass Ref 0 n else VGeometricCenter Ref 0 n)
       = Inr (Some (centroid (weights Ref useMass) (frame_atoms Ref)))"
    and "NegTranslate Ref (Some (centroid (weights Ref useMass) (frame_atoms Ref)))
       = Inr (centered Ref useMass)"
proof -
  have pos: "0 < natom Ref" using assms(4) by (rule weight_has_atoms)
  obtain cs where cs: "X Ref = Buf cs" "3 * nat (natom Ref) \<le> length cs"
    using wf_Frame_cells[OF assms(1)] assms(1) pos by (auto simp: wf_Frame_def)
  have len: "\<not> int (length cs) < natom Ref * 3" using cs(2) by linarith
  show "(if useMass then VCenterOfMass Ref 0 n else VGeometricCenter Ref 0 n)
       = Inr (Some (centroid (weights Ref useMass) (frame_atoms Ref)))"
    using assms(3,4) pos len
    by (auto simp: VCenterOfMass_def VGeometricCenter_def Let_def cs(1) cells_def
                   assms(2)[symmetric] weights_def frame_atoms_def total_weight_def)
  show "NegTranslate Ref (Some (centroid (weights Ref useMass) (frame_atoms Ref)))
       = Inr (centered Ref useMass)"
    unfolding NegTranslate_def option.case by (rule Translate_centered[OF assms(1) pos])
qed

text \<open>The same centring when the weights of the reference sum to zero: no centre, and no
  number left in the coordinates of its atoms.\<close>

lemma center_Ref_absent:
  assumes "wf_Frame Ref" and "natom Ref = n" and "useMass \<longrightarrow> n \<le> int (length (Mass Ref))"
      and "total_weight Ref useMass = 0"
  shows "(if useMass then VCenterOfMass Ref 0 n else VGeometricCenter Ref 0 n) = Inr None"
    and "NegTranslate Ref None = Inr (not_numbers Ref)"
proof -
  have n0: "0 \<le> natom Ref" using assms(1) by (simp add: wf_Frame_def)
  have len: "\<not> int (length (cells (X Ref))) < natom Ref * 3"
    using assms(1)
    by (auto simp: wf_Frame_def allocated_def cells_def split: buffer.splits)
  have nb: "\<And>cs. X Ref \<noteq> NaNBuf cs"
    using assms(1) by (auto simp: wf_Frame_def allocated_def split: buffer.splits)
  have geo: "natom Ref = 0" if "\<not> useMass"
    using that assms(4) n0 by (simp add: total_weight_def weights_def sum_list_replicate)
  show "(if useMass then VCenterOfMass Ref 0 n else VGeometricCenter Ref 0 n) = Inr None"
  proof (cases useMass)
    case True
    then have "sum_list (take (nat (natom Ref)) (Mass Ref)) = 0"
      using assms(4) by (simp add: total_weight_def weights_def)
    then show ?thesis
      using True assms(3) len nb
      by (auto simp: VCenterOfMass_def Let_def assms(2)[symmetric] split: buffer.splits)
  next
    case False
    then show ?thesis
      using len nb geo
      by (auto simp: VGeometricCenter_def assms(2)[symmetric] split: buffer.splits)
  qed
  show "NegTranslate Ref None = Inr (not_numbers Ref)"
    using len nb
    by (auto simp: NegTranslate_def Translate_NaN_def not_numbers_def cells_def
             split: buffer.splits)
qed

text \<open>The fit that first centres the reference, for a total weight of this frame below the
  threshold: what it returns and leaves, the reference included.\<close>

lemma RMSD_zero_weight_reference:
  assumes "wf_Frame this" and "useMass \<longrightarrow> natom this \<le> int (length (Mass this))"
      and "total_weight this useMass < SMALL"
      and "wf_Frame Ref" and "natom Ref = natom this"
      and "useMass \<longrightarrow> natom Ref \<le> int (length (Mass Ref))"
  shows "RMSD SMALL TransposeMult Diagonalize_Sort this Ref U useMass =
           Inr (\<lparr>returned = - 1, reported = Some DivideByZero, this_out = this, U_out = U,
                 Trans_out = (wsum (weights this useMass) (map vx (frame_atoms this)),
                              wsum (weights this useMass) (map vy (frame_atoms this)),
                              wsum (weights this useMass) (map vz (frame_atoms this)))\<rparr>,
                if total_weight Ref useMass = 0 then not_numbers Ref else centered Ref useMass,
                if total_weight Ref useMass = 0 then None
                else Some (centroid (weights Ref useMass) (frame_atoms Ref)))"
proof -
  have m: "useMass \<longrightarrow> natom this \<le> int (length (Mass Ref))"
    using assms(5,6) by simp
  note z = RMSD_CenteredRef_zero_weight[OF assms(1-3)]
  show ?thesis
  proof (cases "total_weight Ref useMass = 0")
    case True
    note c = center_Ref_absent[OF assms(4,5) m True]
    show ?thesis using True by (simp add: RMSD_def c and_then_def z)
  next
    case False
    note c = center_Ref[OF assms(4,5) m False]
    show ?thesis using False by (simp add: RMSD_def c and_then_def z)
  qed
qed

text \<open>
  C3. When the total weight of this frame (the sum of the masses of its atoms if the fit is
  mass-weighted, the number of atoms if not) is below the threshold, \<open>RMSD_CenteredRef\<close>
  prints an error and returns \<open>-1\<close>, whatever the reference; this frame is the one passed
  in, its coordinates untranslated, and \<open>U\<close> is untouched (\<open>Trans\<close> holds the weighted
  coordinate sums). The fit that first centres the reference, \<open>RMSD\<close>, prints the same
  error, returns \<open>-1\<close> and leaves this frame, \<open>U\<close> and \<open>Trans\<close> in the same way, for a
  well-formed reference of the same number of atoms (with masses for every atom when the
  fit is mass-weighted).
\<close>

theorem RMSD_zero_weight:
  assumes "wf_Frame this" and "useMass \<longrightarrow> natom this \<le> int (length (Mass this))"
      and "total_weight this useMass < SMALL"
      and "wf_Frame Ref" and "natom Ref = natom this"
      and "useMass \<longrightarrow> natom Ref \<le> int (length (Mass Ref))"
      and "err = \<lparr>returned = - 1, reported = Some DivideByZero, this_out = this, U_out = U,
                   Trans_out = (wsum (weights this useMass) (map vx (frame_atoms this)),
                                wsum (weights this useMass) (map vy (frame_atoms this)),
                                wsum (weights this useMass) (map vz (frame_atoms this)))\<rparr>"
  shows "RMSD_CenteredRef SMALL TransposeMult Diagonalize_Sort this anyRef U useMass = Inr err
       \<and> (\<exists>Ref' refTrans.
             RMSD SMALL TransposeMult Diagonalize_Sort this Ref U useMass
               = Inr (err, Ref', refTrans))"
  unfolding assms(7) RMSD_CenteredRef_zero_weight[OF assms(1-3)]
            RMSD_zero_weight_reference[OF assms(1-6)]
  by simp

theorem RMSD_zero_weight_witness:
  "wf_Frame ex_weightless \<and> natom ex_weightless \<le> int (length (Mass ex_weightless))
   \<and> total_weight ex_weightless True < ex_SMALL
   \<and> wf_Frame ex_weightless_moved \<and> natom ex_weightless_moved = natom ex_weightless
   \<and> natom ex_weightless_moved \<le> int (length (Mass ex_weightless_moved))
   \<and> RMSD_CenteredRef ex_SMALL ex_TransposeMult ex_Diagonalize_Sort ex_weightless ex_pair_centered
        ex_U True
      = Inr \<lparr>returned = - 1, reported = Some DivideByZero, this_out = ex_weightless,
             U_out = ex_U, Trans_out = (0, 0, 0)\<rparr>
   \<and> (\<exists>Ref' refTrans.
         RMSD ex_SMALL ex_TransposeMult ex_Diagonalize_Sort ex_weightless ex_weightless_moved
           ex_U True
         = Inr (\<lparr>returned = - 1, reported = Some DivideByZero, this_out = ex_weightless,
                 U_out = ex_U, Trans_out = (0, 0, 0)\<rparr>, Ref', refTrans))
   \<and> wf_Frame ex_pair_moved \<and> natom ex_pair_moved = natom ex_weightless
   \<and> natom ex_pair_moved \<le> int (length (Mass ex_pair_moved))
   \<and> (\<exists>Ref' refTrans.
         RMSD ex_SMALL ex_TransposeMult ex_Diagonalize_Sort ex_weightless ex_pair_moved ex_U True
         = Inr (\<lparr>returned = - 1, reported = Some DivideByZero, this_out = ex_weightless,
                 U_out = ex_U, Trans_out = (0, 0, 0)\<rparr>, Ref', refTrans))
   \<and> wf_Frame ex_empty \<and> total_weight ex_empty False < ex_SMALL
   \<and> (\<exists>Ref' refTrans.
         RMSD ex_SMALL ex_TransposeMult ex_Diagonalize_Sort ex_empty ex_empty ex_U False
         = Inr (\<lparr>returned = - 1, reported = Some DivideByZero, this_out = ex_empty,
                 U_out = ex_U, Trans_out = (0, 0, 0)\<rparr>, Ref', refTrans))"
proof -
  have h: "wf_Frame ex_weightless"
          "True \<longrightarrow> natom ex_weightless \<le> int (length (Mass ex_weightless))"
          "total_weight ex_weightless True < ex_SMALL"
    by (simp_all add: ex_pair_facts ex_SMALL_def) (simp add: ex_weightless_def ex_pair_def)
  have r: "wf_Frame ex_weightless_moved" "natom ex_weightless_moved = natom ex_weightless"
          "True \<longrightarrow> natom ex_weightless_moved \<le> int (length (Mass ex_weightless_moved))"
    by (simp_all add: wf_Frame_def allocated_def ex_weightless_moved_def ex_pair_moved_def
                      ex_weightless_def ex_pair_def)
  have r': "wf_Frame ex_pair_moved" "natom ex_pair_moved = natom ex_weightless"
           "True \<longrightarrow> natom ex_pair_moved \<le> int (length (Mass ex_pair_moved))"
    by (simp_all add: ex_pair_facts) (simp_all add: ex_pair_moved_def ex_weightless_def ex_pair_def)
  have e: "wf_Frame ex_empty" "False \<longrightarrow> natom ex_empty \<le> int (length (Mass ex_empty))"
          "total_weight ex_empty False < ex_SMALL"
          "wf_Frame ex_empty" "natom ex_empty = natom ex_empty"
          "False \<longrightarrow> natom ex_empty \<le> int (length (Mass ex_empty))"
    by (simp_all add: wf_Frame_def allocated_def total_weight_def weights_def ex_empty_def
                      ex_SMALL_def)
  have w: "weights ex_weightless True = [0, 0]" "weights ex_empty False = []"
          "frame_atoms ex_empty = []"
    by (simp_all add: weights_def frame_atoms_def atoms_of_def ex_weightless_def ex_pair_def
                      ex_empty_def)
  note weightless_ref =
    RMSD_zero_weight[OF h r refl, of ex_TransposeMult ex_Diagonalize_Sort ex_pair_centered ex_U]
  note weighted_ref =
    RMSD_zero_weight[OF h r' refl, of ex_TransposeMult ex_Diagonalize_Sort ex_pair_centered ex_U]
  note no_atoms =
    RMSD_zero_weight[OF e refl, of ex_TransposeMult ex_Diagonalize_Sort ex_pair_centered ex_U]
  show ?thesis
    using h r r' e(1,3) weightless_ref weighted_ref no_atoms
    by (simp add: w wsum_def ex_pair_facts)
qed

text \<open>What the three calls leave of the reference: no number in the coordinates of the
  weightless one, the weighted one centred, the one without atoms as it was.\<close>

lemma RMSD_zero_weight_examples:
  "RMSD ex_SMALL ex_TransposeMult ex_Diagonalize_Sort ex_weightless ex_weightless_moved ex_U True
     = Inr (\<lparr>returned = - 1, reported = Some DivideByZero, this_out = ex_weightless,
             U_out = ex_U, Trans_out = (0, 0, 0)\<rparr>,
            ex_weightless_moved\<lparr>X := NaNBuf [None, None, None, None, None, None]\<rparr>, None)"
  "RMSD ex_SMALL ex_TransposeMult ex_Diagonalize_Sort ex_weightless ex_pair_moved ex_U True
     = Inr (\<lparr>returned = - 1, reported = Some DivideByZero, this_out = ex_weightless,
             U_out = ex_U, Trans_out = (0, 0, 0)\<rparr>,
            ex_pair_centered, Some (11 / 2, 5, 5))"
  "RMSD ex_SMALL ex_TransposeMult ex_Diagonalize_Sort ex_empty ex_empty ex_U False
     = Inr (\<lparr>returned = - 1, reported = Some DivideByZero, this_out = ex_empty,
             U_out = ex_U, Trans_out = (0, 0, 0)\<rparr>,
            ex_empty, None)"
proof -
  have h: "wf_Frame ex_weightless"
          "True \<longrightarrow> natom ex_weightless \<le> int (length (Mass ex_weightless))"
          "total_weight ex_weightless True < ex_SMALL"
    by (simp_all add: ex_pair_facts ex_SMALL_def) (simp add: ex_weightless_def ex_pair_def)
  have r: "wf_Frame ex_weightless_moved" "natom ex_weightless_moved = natom ex_weightless"
          "True \<longrightarrow> natom ex_weightless_moved \<le> int (length (Mass ex_weightless_moved))"
    by (simp_all add: wf_Frame_def allocated_def ex_weightless_moved_def ex_pair_moved_def
                      ex_weightless_def ex_pair_def)
  have r': "wf_Frame ex_pair_moved" "natom ex_pair_moved = natom ex_weightless"
           "True \<longrightarrow> natom ex_pair_moved \<le> int (length (Mass ex_pair_moved))"
    by (simp_all add: ex_pair_facts) (simp_all add: ex_pair_moved_def ex_weightless_def ex_pair_def)
  have e: "wf_Frame ex_empty" "False \<longrightarrow> natom ex_empty \<le> int (length (Mass ex_empty))"
          "total_weight ex_empty False < ex_SMALL"
          "wf_Frame ex_empty" "natom ex_empty = natom ex_empty"
          "False \<longrightarrow> natom ex_empty \<le> int (length (Mass ex_empty))"
    by (simp_all add: wf_Frame_def allocated_def total_weight_def weights_def ex_empty_def
                      ex_SMALL_def)
  have w: "weights ex_weightless True = [0, 0]" "weights ex_empty False = []"
          "frame_atoms ex_empty = []"
          "not_numbers ex_weightless_moved
             = ex_weightless_moved\<lparr>X := NaNBuf [None, None, None, None, None, None]\<rparr>"
          "not_numbers ex_empty = ex_empty"
          "total_weight ex_empty False = 0" "total_weight ex_weightless_moved True = 0"
    by (simp_all add: weights_def total_weight_def frame_atoms_def atoms_of_def not_numbers_def
                      cells_def numeral_eq_Suc ex_weightless_def ex_weightless_moved_def
                      ex_pair_moved_def ex_pair_def ex_empty_def)
  show "RMSD ex_SMALL ex_TransposeMult ex_Diagonalize_Sort ex_weightless ex_weightless_moved
          ex_U True
     = Inr (\<lparr>returned = - 1, reported = Some DivideByZero, this_out = ex_weightless,
             U_out = ex_U, Trans_out = (0, 0, 0)\<rparr>,
            ex_weightless_moved\<lparr>X := NaNBuf [None, None, None, None, None, None]\<rparr>, None)"
    unfolding RMSD_zero_weight_reference[OF h r] by (simp add: w wsum_def ex_pair_facts)
  show "RMSD ex_SMALL ex_TransposeMult ex_Diagonalize_Sort ex_weightless ex_pair_moved ex_U True
     = Inr (\<lparr>returned = - 1, reported = Some DivideByZero, this_out = ex_weightless,
             U_out = ex_U, Trans_out = (0, 0, 0)\<rparr>,
            ex_pair_centered, Some (11 / 2, 5, 5))"
    unfolding RMSD_zero_weight_reference[OF h r']
    by (simp add: w wsum_def ex_pair_facts ex_pair_centered_eq)
  show "RMSD ex_SMALL ex_TransposeMult ex_Diagonalize_Sort ex_empty ex_empty ex_U False
     = Inr (\<lparr>returned = - 1, reported = Some DivideByZero, this_out = ex_empty,
             U_out = ex_U, Trans_out = (0, 0, 0)\<rparr>,
            ex_empty, None)"
    unfolding RMSD_zero_weight_reference[OF e] by (simp add: w wsum_def)
qed

text \<open>
  C9. When the diagonalisation fails (for well-formed frames of the same number of atoms
  and a total weight that reaches the positive threshold), \<open>RMSD_CenteredRef\<close> returns 0
  without an error message, and leaves this frame translated by its negated (weighted)
  centroid and \<open>Trans\<close> holding the negated centroid; \<open>U\<close> is untouched. The coordinates
  the frame had before the call are not restored.
\<close>

theorem RMSD_diagonalization_failure:
  assumes "wf_Frame this" and "wf_Frame Ref" and "natom Ref = natom this"
      and "useMass \<longrightarrow> natom this \<le> int (length (Mass this))"
      and "0 < SMALL" and "SMALL \<le> total_weight this useMass"
      and "R = covariance (weights this useMass)
                 (frame_atoms (centered this useMass)) (frame_atoms Ref)"
      and "Diagonalize_Sort (TransposeMult R R) = None"
  shows "RMSD_CenteredRef SMALL TransposeMult Diagonalize_Sort this Ref U useMass =
           Inr \<lparr>returned = 0, reported = None, this_out = centered this useMass, U_out = U,
                Trans_out = Neg (centroid (weights this useMass) (frame_atoms this))\<rparr>"
  using assms(6,8)
  unfolding RMSD_CenteredRef_eq[OF assms(1-5)] assms(7)
  by (simp add: Let_def)

theorem RMSD_diagonalization_failure_witness:
  "wf_Frame ex_pair \<and> wf_Frame ex_pair_centered \<and> natom ex_pair_centered = natom ex_pair
   \<and> natom ex_pair \<le> int (length (Mass ex_pair))
   \<and> 0 < ex_SMALL \<and> ex_SMALL \<le> total_weight ex_pair True
   \<and> ex_Diagonalize_fails (ex_TransposeMult (Matrix_3x3 1 0 0 0 0 0 0 0 0) (Matrix_3x3 1 0 0 0 0 0 0 0 0))
       = None
   \<and> RMSD_CenteredRef ex_SMALL ex_TransposeMult ex_Diagonalize_fails ex_pair ex_pair_centered
        ex_U True
      = Inr \<lparr>returned = 0, reported = None, this_out = ex_pair_centered, U_out = ex_U,
             Trans_out = (- (1 / 2), 0, 0)\<rparr>
   \<and> X ex_pair_centered \<noteq> X ex_pair"
proof -
  have h: "wf_Frame ex_pair" "wf_Frame ex_pair_centered" "natom ex_pair_centered = natom ex_pair"
          "True \<longrightarrow> natom ex_pair \<le> int (length (Mass ex_pair))"
          "0 < ex_SMALL" "ex_SMALL \<le> total_weight ex_pair True"
    by (simp_all add: ex_pair_facts ex_SMALL_def) (simp_all add: ex_pair_centered_def ex_pair_def)
  have R: "Matrix_3x3 1 0 0 0 0 0 0 0 0
         = covariance (weights ex_pair True) (frame_atoms (centered ex_pair True))
             (frame_atoms ex_pair_centered)"
    by (simp add: ex_pair_facts ex_pair_centered_eq ex_pair_covariance)
  have d: "ex_Diagonalize_fails (ex_TransposeMult (Matrix_3x3 1 0 0 0 0 0 0 0 0) (Matrix_3x3 1 0 0 0 0 0 0 0 0))
         = None"
    by (simp add: ex_Diagonalize_fails_def)
  have ne: "X ex_pair_centered \<noteq> X ex_pair"
    by (simp add: ex_pair_centered_def ex_pair_def)
  show ?thesis
    using h d ne
      RMSD_diagonalization_failure[where this = ex_pair and Ref = ex_pair_centered
        and useMass = True and SMALL = ex_SMALL and TransposeMult = ex_TransposeMult
        and Diagonalize_Sort = ex_Diagonalize_fails and U = ex_U, OF h R d]
    by (simp add: ex_pair_facts ex_pair_centered_eq Neg_def)
qed

text \<open>
  C2. For two well-formed frames of the same number of atoms (with masses for every atom of
  both when the fit is mass-weighted) whose total weights reach the positive threshold, the
  fit \<open>RMSD(Ref, U, Trans, refTrans, useMass)\<close> leaves this frame translated by its negated
  (weighted) centroid and the reference translated by the negation of its own; \<open>Trans\<close> is
  the negated centroid of this frame as it was and \<open>refTrans\<close> the centroid of the reference
  as it was. Nothing but \<open>X_\<close> changes in either frame. (This frame and the reference are
  two objects.)
\<close>

theorem RMSD_translates_both:
  assumes "wf_Frame this" and "wf_Frame Ref" and "natom Ref = natom this"
      and "useMass \<longrightarrow> natom this \<le> int (length (Mass this))
                    \<and> natom Ref \<le> int (length (Mass Ref))"
      and "0 < SMALL" and "SMALL \<le> total_weight this useMass"
      and "SMALL \<le> total_weight Ref useMass"
  shows "\<exists>ret U'. RMSD SMALL TransposeMult Diagonalize_Sort this Ref U useMass =
           Inr (\<lparr>returned = ret, reported = None, this_out = centered this useMass, U_out = U',
                 Trans_out = Neg (centroid (weights this useMass) (frame_atoms this))\<rparr>,
                centered Ref useMass,
                Some (centroid (weights Ref useMass) (frame_atoms Ref)))"
proof -
  have m: "useMass \<longrightarrow> natom this \<le> int (length (Mass this))"
          "useMass \<longrightarrow> natom this \<le> int (length (Mass Ref))"
    using assms(3,4) by simp_all
  have W: "total_weight Ref useMass \<noteq> 0" using assms(5,7) by linarith
  have wfR: "wf_Frame (centered Ref useMass)"
    using assms(2) by (rule wf_Frame_centered)
  have nR: "natom (centered Ref useMass) = natom this"
    using assms(3) by (simp add: centered_def)
  note c = center_Ref[OF assms(2,3) m(2) W]
  note r = RMSD_CenteredRef_eq[OF assms(1) wfR nR m(1) assms(5)]
  show ?thesis
    using assms(6)
    by (auto simp: RMSD_def c and_then_def r Let_def split: option.splits)
qed

theorem RMSD_translates_both_witness:
  "wf_Frame ex_pair \<and> wf_Frame ex_pair_moved \<and> natom ex_pair_moved = natom ex_pair
   \<and> natom ex_pair \<le> int (length (Mass ex_pair))
   \<and> natom ex_pair_moved \<le> int (length (Mass ex_pair_moved))
   \<and> 0 < ex_SMALL \<and> ex_SMALL \<le> total_weight ex_pair True
   \<and> ex_SMALL \<le> total_weight ex_pair_moved True
   \<and> (\<exists>ret U'. RMSD ex_SMALL ex_TransposeMult ex_Diagonalize_Sort ex_pair ex_pair_moved ex_U True =
         Inr (\<lparr>returned = ret, reported = None, this_out = ex_pair_centered, U_out = U',
               Trans_out = (- (1 / 2), 0, 0)\<rparr>,
              ex_pair_centered, Some (11 / 2, 5, 5)))"
proof -
  have h: "wf_Frame ex_pair" "wf_Frame ex_pair_moved" "natom ex_pair_moved = natom ex_pair"
          "True \<longrightarrow> natom ex_pair \<le> int (length (Mass ex_pair))
                 \<and> natom ex_pair_moved \<le> int (length (Mass ex_pair_moved))"
          "0 < ex_SMALL" "ex_SMALL \<le> total_weight ex_pair True"
          "ex_SMALL \<le> total_weight ex_pair_moved True"
    by (simp_all add: ex_pair_facts ex_SMALL_def) (simp_all add: ex_pair_moved_def ex_pair_def)
  show ?thesis
    using h
      RMSD_translates_both[where this = ex_pair and Ref = ex_pair_moved and useMass = True
        and SMALL = ex_SMALL and TransposeMult = ex_TransposeMult
        and Diagonalize_Sort = ex_Diagonalize_Sort and U = ex_U, OF h]
    by (simp add: ex_pair_facts ex_pair_centered_eq Neg_def)
qed

section \<open>DISTRMSD\<close>

lemma pair_dist_Buf:
  assumes "3 * N \<le> length cs" and "i < N" and "j < N"
  shows "pair_dist (Buf cs) (int (3 * i)) (int (3 * j))
       = Inr (dist3 (atom_xyz cs i) (atom_xyz cs j))"
  unfolding pair_dist_def Let_def
  by (simp only: rd_atom[OF assms(1,2)] rd_atom[OF assms(1,3)] and_then_def sum.case dist3_def)

lemma DISTRMSD_inner_Buf:
  assumes "3 * N \<le> length cs" and "3 * N \<le> length rs" and "i < N" and "j \<le> N"
  shows "DISTRMSD_inner (Buf cs) (Buf rs) (int N) (int (3 * i)) (int j) (int (3 * j)) rms
       = Inr (rms + sum_list (map (\<lambda>b. (dist3 (atom_xyz cs i) (atom_xyz cs b)
                                         - dist3 (atom_xyz rs i) (atom_xyz rs b))\<^sup>2) [j..<N]))"
  using assms(4)
proof (induction "N - j" arbitrary: j rms)
  case 0
  then show ?case by (subst DISTRMSD_inner.simps) simp
next
  case (Suc d)
  then have j: "j < N" by simp
  have nxt: "int (3 * j) + 3 = int (3 * Suc j)" "int j + 1 = int (Suc j)" by simp_all
  have lt: "int j < int N" using j by simp
  have ih: "DISTRMSD_inner (Buf cs) (Buf rs) (int N) (int (3 * i)) (int (Suc j)) (int (3 * Suc j)) e
          = Inr (e + sum_list (map (\<lambda>b. (dist3 (atom_xyz cs i) (atom_xyz cs b)
                                          - dist3 (atom_xyz rs i) (atom_xyz rs b))\<^sup>2) [Suc j..<N]))"
    for e
    using Suc.hyps(2) j by (intro Suc.hyps(1)) simp_all
  show ?case
    apply (subst DISTRMSD_inner.simps)
    apply (simp only: pair_dist_Buf[OF assms(1,3) j] pair_dist_Buf[OF assms(2,3) j] and_then_def
                      sum.case Let_def nxt ih lt if_True upt_conv_Cons[OF j])
    apply (simp add: power2_eq_square add.assoc)
    done
qed

lemma DISTRMSD_outer_Buf:
  assumes "3 * N \<le> length cs" and "3 * N \<le> length rs" and "i \<le> N"
  shows "DISTRMSD_outer (Buf cs) (Buf rs) (int N) (int i) (int (3 * i)) rms
       = Inr (rms + sum_list (map (\<lambda>a. sum_list (map (\<lambda>b. (dist3 (atom_xyz cs a) (atom_xyz cs b)
                                         - dist3 (atom_xyz rs a) (atom_xyz rs b))\<^sup>2) [Suc a..<N]))
                                  [i..<N]))"
  using assms(3)
proof (induction "N - i" arbitrary: i rms)
  case 0
  then show ?case by (subst DISTRMSD_outer.simps) simp
next
  case (Suc d)
  then have i: "i < N" by simp
  show ?case
  proof (cases "Suc i < N")
    case False
    then have "Suc i = N" using i by simp
    then show ?thesis
      by (subst DISTRMSD_outer.simps) (auto simp: upt_conv_Cons)
  next
    case True
    have nxt: "int (3 * i) + 3 = int (3 * Suc i)" "int i + 1 = int (Suc i)" by simp_all
    have lt: "int i < int N - 1" using True by simp
    have ih: "DISTRMSD_outer (Buf cs) (Buf rs) (int N) (int (Suc i)) (int (3 * Suc i)) e
          = Inr (e + sum_list (map (\<lambda>a. sum_list (map (\<lambda>b. (dist3 (atom_xyz cs a) (atom_xyz cs b)
                                         - dist3 (atom_xyz rs a) (atom_xyz rs b))\<^sup>2) [Suc a..<N]))
                                  [Suc i..<N]))" for e
      using Suc.hyps(2) i by (intro Suc.hyps(1)) simp_all
    show ?thesis
      apply (subst DISTRMSD_outer.simps)
      apply (simp only: nxt lt if_True and_then_def sum.case ih
                        DISTRMSD_inner_Buf[OF assms(1,2) i Suc_leI[OF i]] upt_conv_Cons[OF i])
      apply (simp add: add.assoc)
      done
  qed
qed

lemma sum_list_pairs:
  "sum_list (map g (concat (map (\<lambda>i. map (\<lambda>j. (i, j)) (h i)) xs)))
   = sum_list (map (\<lambda>a. sum_list (map (\<lambda>b. g (a, b)) (h a))) xs)"
  by (induction xs) (simp_all add: comp_def)

lemma pair_count_pos:
  assumes "2 \<le> (n :: int)"
  shows "0 < ((n * n) - n) sdiv 2"
proof -
  have "2 \<le> n * n - n"
  proof -
    have "2 * 1 \<le> n * (n - 1)" using assms by (intro mult_mono) simp_all
    then show ?thesis by (simp add: algebra_simps)
  qed
  then have "0 < (n * n - n) div 2" by simp
  moreover have "(n * n - n) sdiv 2 = (n * n - n) div 2"
    using \<open>2 \<le> n * n - n\<close> by (simp add: signed_divide_int_def)
  ultimately show ?thesis by simp
qed

lemma no_overflow:
  assumes "0 \<le> (n :: int)" and "n \<le> 46340"
  shows "\<not> n * n > INT_MAX"
proof -
  have "n * n \<le> 46340 * 46340" using assms by (intro mult_mono) simp_all
  then show ?thesis by (simp add: INT_MAX_def)
qed

text \<open>
  C8, as amended. For two well-formed frames of the same number \<open>N\<close> of atoms with
  \<open>2 \<le> N \<le> 46340\<close> (the largest \<open>N\<close> for which \<open>N * N\<close> fits an \<open>int\<close>), the divisor of
  \<open>DISTRMSD\<close>, the number \<open>(N * N - N) / 2\<close> of atom pairs, is positive, and \<open>DISTRMSD\<close>
  returns the square root of the sum, over the pairs \<open>i < j\<close>, of the squared difference
  between the distance of atoms \<open>i\<close> and \<open>j\<close> in this frame and in the reference, divided by
  the number of pairs.
\<close>

theorem DISTRMSD_value:
  assumes "wf_Frame this" and "wf_Frame Ref" and "natom Ref = natom this"
      and "2 \<le> natom this" and "natom this \<le> 46340"
  shows "Ndistances this = Inr (real_of_int ((natom this * natom this - natom this) sdiv 2))
       \<and> 0 < (natom this * natom this - natom this) sdiv 2
       \<and> DISTRMSD this Ref =
           Inr (sqrt (pair_sq_sum this Ref (nat (natom this))
                      / real_of_int ((natom this * natom this - natom this) sdiv 2)))"
proof -
  let ?N = "nat (natom this)"
  let ?D = "(natom this * natom this - natom this) sdiv 2"
  have nd: "Ndistances this = Inr (real_of_int ?D)"
    using no_overflow[of "natom this"] assms(4,5) by (simp add: Ndistances_def)
  have pos: "0 < ?D" using pair_count_pos[OF assms(4)] .
  obtain cs where cs: "X this = Buf cs" "3 * ?N \<le> length cs"
    using wf_Frame_cells[OF assms(1)] assms(1,4) by (auto simp: wf_Frame_def)
  obtain rs where rs: "X Ref = Buf rs" "3 * ?N \<le> length rs"
    using wf_Frame_cells[OF assms(2)] assms(2,3,4) by (auto simp: wf_Frame_def)
  have n: "natom this = int ?N" using assms(4) by simp
  have "DISTRMSD_outer (Buf cs) (Buf rs) (int ?N) (int 0) (int (3 * 0)) 0
      = Inr (0 + sum_list (map (\<lambda>a. sum_list (map (\<lambda>b. (dist3 (atom_xyz cs a) (atom_xyz cs b)
                                         - dist3 (atom_xyz rs a) (atom_xyz rs b))\<^sup>2) [Suc a..<?N]))
                                  [0..<?N]))"
    using cs(2) rs(2) by (intro DISTRMSD_outer_Buf) simp_all
  then have outer: "DISTRMSD_outer (X this) (X Ref) (natom this) 0 0 0
                  = Inr (pair_sq_sum this Ref ?N)"
    unfolding pair_sq_sum_def atom_pairs_def sum_list_pairs
    using assms(4) by (simp add: cs(1) rs(1) atom_dist_def cells_def)
  have nonneg: "0 \<le> pair_sq_sum this Ref ?N"
    unfolding pair_sq_sum_def by (intro sum_list_nonneg) auto
  have q: "\<not> pair_sq_sum this Ref ?N / real_of_int ?D < 0"
    using nonneg pos by (simp add: divide_less_0_iff not_less)
  have "DISTRMSD this Ref = Inr (sqrt (pair_sq_sum this Ref ?N / real_of_int ?D))"
    using pos q by (simp add: DISTRMSD_def nd outer and_then_def fdiv_def fsqrt_def)
  then show ?thesis using nd pos by simp
qed

lemma ex_line_sum: "pair_sq_sum ex_line1 ex_line2 3 = 6"
proof -
  have s: "sqrt 4 = 2" "sqrt 16 = 4"
    using real_sqrt_abs[of 2] real_sqrt_abs[of 4] by simp_all
  have p: "atom_pairs 3 = [(0, 1), (0, 2), (1, 2)]"
    by (simp add: atom_pairs_def upt_rec)
  show ?thesis
    unfolding pair_sq_sum_def p
    by (simp add: atom_dist_def dist3_def atom_xyz_def cells_def vx_def vy_def vz_def s
                  ex_line1_def ex_line2_def)
qed

theorem DISTRMSD_value_witness:
  "wf_Frame ex_line1 \<and> wf_Frame ex_line2 \<and> natom ex_line2 = natom ex_line1
   \<and> 2 \<le> natom ex_line1 \<and> natom ex_line1 \<le> 46340
   \<and> Ndistances ex_line1 = Inr 3
   \<and> DISTRMSD ex_line1 ex_line2 = Inr (sqrt 2)"
proof -
  have h: "wf_Frame ex_line1" "wf_Frame ex_line2" "natom ex_line2 = natom ex_line1"
          "2 \<le> natom ex_line1" "natom ex_line1 \<le> 46340"
    by (simp_all add: wf_Frame_def allocated_def ex_line1_def ex_line2_def)
  have n: "natom ex_line1 = 3" by (simp add: ex_line1_def)
  have d: "((3 :: int) * 3 - 3) sdiv 2 = 3" by (simp add: signed_divide_int_def)
  show ?thesis
    using h DISTRMSD_value[OF h]
    by (simp add: n d ex_line_sum)
qed

text \<open>
  C8 as stated fails. One atom is a nonzero number of atoms, yet the divisor is
  \<open>(1 * 1 - 1) / 2 = 0\<close> and the result is \<open>0 / 0\<close>; and for 46341 atoms the product
  \<open>natom_ * natom_\<close> does not fit an \<open>int\<close>.
\<close>

theorem DISTRMSD_counterexample:
  "wf_Frame ex_single \<and> natom ex_single \<noteq> 0
   \<and> Ndistances ex_single = Inr 0
   \<and> DISTRMSD ex_single ex_single = Inl NotANumber
   \<and> wf_Frame ex_many \<and> natom ex_many \<noteq> 0
   \<and> DISTRMSD ex_many ex_many = Inl IntOverflow"
  by (simp add: wf_Frame_def allocated_def Ndistances_def INT_MAX_def DISTRMSD_def and_then_def
                DISTRMSD_outer.simps fdiv_def fsqrt_def signed_divide_int_def ex_single_def ex_many_def)

end
